theory Spec2Isabelle
  imports Complex_Main
begin

section \<open>Python values\<close>

text \<open>
  The embedding of \<^verbatim>\<open>trading_bot.py\<close>. A Python \<^verbatim>\<open>float\<close> is an IEEE binary64
  value and is modelled by the rational it denotes: the float operations of the scanner
  and of the order executor (\<open>float(s)\<close>, \<open>-\<close>, \<open>*\<close>, \<open>/\<close>, \<open>//\<close>, \<open>round\<close>) round
  their exact results to binary64. Infinities, NaN and overflow are outside the model.
  The position sizer and the threshold of the rebound monitor are embedded in exact
  arithmetic, and the sizer has a second embedding in binary64. Every exception the
  source can raise is a value of \<open>py_error\<close>; a computation that may raise returns
  \<open>py_error + 'a\<close>.
\<close>

datatype py_error =
  BinanceAPIException
  | IndexError
  | KeyError
  | ValueError
  | ZeroDivisionError
  | StopIteration
  | OtherException

definition bind_err :: "py_error + 'a \<Rightarrow> ('a \<Rightarrow> py_error + 'b) \<Rightarrow> py_error + 'b" where
  "bind_err r f = (case r of Inl e \<Rightarrow> Inl e | Inr x \<Rightarrow> f x)"

text \<open>A JSON object whose values are strings: an association list, read with \<open>d[k]\<close>.\<close>

type_synonym dict = "(string \<times> string) list"

definition py_getitem :: "dict \<Rightarrow> string \<Rightarrow> py_error + string" where
  "py_getitem d k = (case map_of d k of None \<Rightarrow> Inl KeyError | Some v \<Rightarrow> Inr v)"

text \<open>\<open>xs[i]\<close> for a literal index \<open>i \<ge> 0\<close>: IndexError out of range.\<close>

definition py_index :: "'a list \<Rightarrow> nat \<Rightarrow> py_error + 'a" where
  "py_index xs i = (if i < length xs then Inr (xs ! i) else Inl IndexError)"

subsection \<open>Binary64 arithmetic\<close>

text \<open>
  \<open>round_b64\<close> rounds a rational to the nearest value with a 53-bit significand, ties to
  even, as binary64 does for magnitudes in its normal range, from \<open>2\<^sup>-\<^sup>1\<^sup>0\<^sup>2\<^sup>2\<close> to below
  \<open>2\<^sup>1\<^sup>0\<^sup>2\<^sup>4\<close>; \<open>log2_floor\<close> finds the exponent, with fuel for 1100 halvings or
  doublings.
\<close>

definition round_half_even :: "rat \<Rightarrow> int" where
  "round_half_even x =
     (let f = \<lfloor>x\<rfloor>; r = x - of_int f
      in if r < 1 / 2 then f else if 1 / 2 < r then f + 1 else if even f then f else f + 1)"

fun log2_floor :: "nat \<Rightarrow> rat \<Rightarrow> int" where
  "log2_floor 0 x = 0"
| "log2_floor (Suc fuel) x =
     (if 2 \<le> x then log2_floor fuel (x / 2) + 1
      else if x < 1 then log2_floor fuel (x * 2) - 1
      else 0)"

definition pow2 :: "int \<Rightarrow> rat" where
  "pow2 e = (if 0 \<le> e then 2 ^ nat e else 1 / 2 ^ nat (- e))"

definition round_b64 :: "rat \<Rightarrow> rat" where
  "round_b64 x =
     (if x = 0 then 0
      else (let e = log2_floor 1100 \<bar>x\<bar> - 52
            in of_int (round_half_even (x / pow2 e)) * pow2 e))"

text \<open>
  \<open>a - b\<close>, \<open>a * b\<close> and \<open>a / b\<close> on floats: the exact result of the operation on
  the binary64 values of the operands, rounded. Division by zero raises
  ZeroDivisionError.
\<close>

definition float_sub :: "rat \<Rightarrow> rat \<Rightarrow> rat" where
  "float_sub a b = round_b64 (round_b64 a - round_b64 b)"

definition float_mul :: "rat \<Rightarrow> rat \<Rightarrow> rat" where
  "float_mul a b = round_b64 (round_b64 a * round_b64 b)"

definition float_div :: "rat \<Rightarrow> rat \<Rightarrow> py_error + rat" where
  "float_div a b =
     (if round_b64 b = 0 then Inl ZeroDivisionError
      else Inr (round_b64 (round_b64 a / round_b64 b)))"

text \<open>The exact quotient, for the position sizer's embedding in exact arithmetic.\<close>

definition py_truediv :: "rat \<Rightarrow> rat \<Rightarrow> py_error + rat" where
  "py_truediv a b = (if b = 0 then Inl ZeroDivisionError else Inr (a / b))"

text \<open>
  \<open>a // b\<close> on floats, as CPython computes it: \<open>mod = fmod(a, b)\<close>, which is exact and
  has the sign of \<open>a\<close>; \<open>div = (a - mod) / b\<close> in floats, less 1 when \<open>mod\<close> is not zero
  and its sign is not that of \<open>b\<close>; then \<open>floor(div)\<close>, plus 1 when \<open>div\<close> exceeds it
  by more than a half. The quotient floored is that of the binary64 values, so
  \<open>0.009 // 0.001\<close> is 8.
\<close>

definition py_fmod :: "rat \<Rightarrow> rat \<Rightarrow> rat" where
  "py_fmod vx wx =
     (let q = vx / wx
      in vx - wx * of_int (if 0 \<le> q then \<lfloor>q\<rfloor> else - \<lfloor>- q\<rfloor>))"

definition py_floordiv :: "rat \<Rightarrow> rat \<Rightarrow> py_error + rat" where
  "py_floordiv a b =
     (let vx = round_b64 a; wx = round_b64 b
      in if wx = 0 then Inl ZeroDivisionError
         else
           (let m = py_fmod vx wx;
                d0 = round_b64 (round_b64 (vx - m) / wx);
                d = (if m \<noteq> 0 \<and> (wx < 0) \<noteq> (m < 0) then round_b64 (d0 - 1) else d0)
            in if d = 0 then Inr 0
               else (let fl = of_int \<lfloor>d\<rfloor>
                     in if 1 / 2 < round_b64 (d - fl) then Inr (round_b64 (fl + 1))
                        else Inr fl)))"

subsection \<open>\<open>float(s)\<close> on the exchange's decimal strings\<close>

text \<open>
  The exchange sends every number as a decimal string such as \<^verbatim>\<open>0.00100000\<close>.
  \<open>py_float\<close> reads an optional sign, digits and at most one point, with at least one
  digit, and gives the binary64 value nearest to the decimal; any other string is a
  ValueError here (Python also reads exponents, \<^verbatim>\<open>inf\<close>, \<^verbatim>\<open>nan\<close> and surrounding
  blanks, which the exchange does not send).
\<close>

definition digit_val :: "char \<Rightarrow> nat option" where
  "digit_val c =
     map_of [(CHR ''0'', 0), (CHR ''1'', 1), (CHR ''2'', 2), (CHR ''3'', 3), (CHR ''4'', 4),
             (CHR ''5'', 5), (CHR ''6'', 6), (CHR ''7'', 7), (CHR ''8'', 8), (CHR ''9'', 9)] c"

fun digits_val :: "nat \<Rightarrow> string \<Rightarrow> nat option" where
  "digits_val acc [] = Some acc"
| "digits_val acc (c # cs) =
     (case digit_val c of None \<Rightarrow> None | Some d \<Rightarrow> digits_val (10 * acc + d) cs)"

definition unsigned_float :: "string \<Rightarrow> py_error + rat" where
  "unsigned_float s =
     (let ip = takeWhile (\<lambda>c. c \<noteq> CHR ''.'') s;
          fp = drop 1 (dropWhile (\<lambda>c. c \<noteq> CHR ''.'') s)
      in if ip = [] \<and> fp = [] then Inl ValueError
         else (case (digits_val 0 ip, digits_val 0 fp) of
                 (Some i, Some f) \<Rightarrow> Inr (round_b64 (of_nat i + of_nat f / 10 ^ length fp))
               | _ \<Rightarrow> Inl ValueError))"

definition py_float :: "string \<Rightarrow> py_error + rat" where
  "py_float s =
     (case s of
        [] \<Rightarrow> Inl ValueError
      | c # t \<Rightarrow>
          if c = CHR ''-'' then bind_err (unsigned_float t) (\<lambda>v. Inr (- v))
          else if c = CHR ''+'' then unsigned_float t
          else unsigned_float s)"

subsection \<open>\<open>str.find\<close> and \<open>round\<close>\<close>

text \<open>\<open>s.find(c)\<close>: the index of the first occurrence, \<open>-1\<close> when there is none.\<close>

definition str_find :: "string \<Rightarrow> char \<Rightarrow> int" where
  "str_find s c = (if c \<in> set s then int (length (takeWhile (\<lambda>x. x \<noteq> c) s)) else - 1)"

text \<open>
  \<open>round(x, n)\<close> on a float, as CPython computes it: the binary64 value of \<open>x\<close> is
  rounded to \<open>n\<close> decimals, half to even, and the result is the binary64 value nearest to
  that decimal; a negative \<open>n\<close> rounds to tens, hundreds and so on. The half is judged on
  the binary64 value, so \<open>round(1.0000005, 6)\<close> is 1.000001.
\<close>

definition py_round :: "rat \<Rightarrow> int \<Rightarrow> rat" where
  "py_round x n =
     (if 0 \<le> n
      then round_b64 (of_int (round_half_even (round_b64 x * 10 ^ nat n)) / 10 ^ nat n)
      else round_b64 (of_int (round_half_even (round_b64 x / 10 ^ nat (- n))) * 10 ^ nat (- n)))"

section \<open>The exchange client and the world\<close>

text \<open>
  The responses of the exchange, with the fields the source reads. A kline is the list
  of its fields (\<open>ohlcv[i][1]\<close> is the open, \<open>ohlcv[i][4]\<close> the close); an order is its
  list of fills, each a JSON object with \<^verbatim>\<open>price\<close> and \<^verbatim>\<open>qty\<close>.
\<close>

type_synonym kline = "string list"

record symbol_info =
  symbol :: string
  filters :: "dict list"

record exchange_info =
  symbols :: "symbol_info list"

record market_order =
  fills :: "dict list"

text \<open>
  The module-level \<^verbatim>\<open>client\<close>: each method takes the exchange's state and returns a
  response or an exception, and the next state. A Python variable holding a symbol can
  be \<^verbatim>\<open>None\<close> (the scanner returns it when nothing was found), so a symbol passed on
  from the scanner is a \<open>string option\<close>.
\<close>

record 'ex client =
  get_klines :: "string \<Rightarrow> string \<Rightarrow> nat \<Rightarrow> 'ex \<Rightarrow> (py_error + kline list) \<times> 'ex"
  get_symbol_ticker :: "string option \<Rightarrow> 'ex \<Rightarrow> (py_error + dict) \<times> 'ex"
  get_exchange_info :: "'ex \<Rightarrow> (py_error + exchange_info) \<times> 'ex"
  get_asset_balance :: "string \<Rightarrow> 'ex \<Rightarrow> (py_error + dict) \<times> 'ex"
  order_market_buy :: "string option \<Rightarrow> rat \<Rightarrow> 'ex \<Rightarrow> (py_error + market_order) \<times> 'ex"
  order_market_sell :: "string option \<Rightarrow> rat \<Rightarrow> 'ex \<Rightarrow> (py_error + market_order) \<times> 'ex"

datatype api_call =
  GetKlines string string nat
  | GetSymbolTicker "string option"
  | GetExchangeInfo
  | GetAssetBalance string
  | OrderMarketBuy "string option" rat
  | OrderMarketSell "string option" rat

text \<open>One constructor for each \<^verbatim>\<open>logging\<close> call of the source, with the values it formats.\<close>

datatype log_entry =
  ErrorFetchingCandles string py_error
  | InfoLargestLoss string "string option" "rat option"
  | InfoBought rat "string option" rat rat
  | ErrorBuyOrder "string option" py_error
  | ErrorFetchingPrice "string option" py_error
  | InfoSold rat "string option" rat
  | ErrorSellOrder "string option" py_error
  | InfoTradeCompleted "string option"
  | ErrorFailedToSell "string option"
  | WarningInsufficientBalance
  | InfoActiveTradeStarted "string option" rat rat
  | ErrorUnexpected py_error

text \<open>
  The world a function runs in: the exchange's state, the requests sent so far (oldest
  first), the log, and the seconds spent in \<^verbatim>\<open>time.sleep\<close>.
\<close>

record 'ex world =
  exchange :: 'ex
  calls :: "api_call list"
  logged :: "log_entry list"
  slept :: nat

type_synonym ('a, 'ex) io = "'ex world \<Rightarrow> (py_error + 'a) \<times> 'ex world"

definition return_io :: "'a \<Rightarrow> ('a, 'ex) io" where
  "return_io x w = (Inr x, w)"

definition lift_io :: "py_error + 'a \<Rightarrow> ('a, 'ex) io" where
  "lift_io r w = (r, w)"

definition bind_io :: "('a, 'ex) io \<Rightarrow> ('a \<Rightarrow> ('b, 'ex) io) \<Rightarrow> ('b, 'ex) io" where
  "bind_io m f w = (case m w of (Inl e, w1) \<Rightarrow> (Inl e, w1) | (Inr x, w1) \<Rightarrow> f x w1)"

text \<open>\<^verbatim>\<open>try: body except BinanceAPIException as e: handler\<close>; other exceptions pass.\<close>

definition try_except :: "('a, 'ex) io \<Rightarrow> (py_error \<Rightarrow> ('a, 'ex) io) \<Rightarrow> ('a, 'ex) io" where
  "try_except body handler w =
     (case body w of
        (Inl e, w1) \<Rightarrow> if e = BinanceAPIException then handler e w1 else (Inl e, w1)
      | (Inr x, w1) \<Rightarrow> (Inr x, w1))"

definition api :: "api_call \<Rightarrow> ('ex \<Rightarrow> (py_error + 'a) \<times> 'ex) \<Rightarrow> ('a, 'ex) io" where
  "api c f w =
     (case f (exchange w) of (r, ex1) \<Rightarrow> (r, w\<lparr>exchange := ex1, calls := calls w @ [c]\<rparr>))"

definition logging :: "log_entry \<Rightarrow> 'ex world \<Rightarrow> 'ex world" where
  "logging e w = w\<lparr>logged := logged w @ [e]\<rparr>"

definition sleep :: "nat \<Rightarrow> 'ex world \<Rightarrow> 'ex world" where
  "sleep n w = w\<lparr>slept := slept w + n\<rparr>"

section \<open>The market scanner\<close>

definition cryptos :: "string list" where
  "cryptos =
     [''BTCUSDT'', ''ETHUSDT'', ''BNBUSDT'', ''XRPUSDT'', ''ADAUSDT'', ''SOLUSDT'',
      ''DOGEUSDT'', ''DOTUSDT'', ''AVAXUSDT'', ''LTCUSDT'', ''LINKUSDT'']"

text \<open>
  Lines 46 to 50: the open is field 1 of \<open>ohlcv[0]\<close>, which the source's comment calls
  the most recent candle, and the close is field 4 of \<open>ohlcv[1]\<close>, which it calls the
  previous candle.
\<close>

definition price_change_percent :: "kline list \<Rightarrow> py_error + rat" where
  "price_change_percent ohlcv =
     bind_err (py_index ohlcv 0) (\<lambda>k0.
     bind_err (py_index k0 1) (\<lambda>s0.
     bind_err (py_float s0) (\<lambda>opening_price.
     bind_err (py_index ohlcv 1) (\<lambda>k1.
     bind_err (py_index k1 4) (\<lambda>s1.
     bind_err (py_float s1) (\<lambda>closing_price.
     bind_err (float_div (float_sub closing_price opening_price) opening_price) (\<lambda>q.
     Inr (float_mul q 100))))))))"

text \<open>The body of the \<^verbatim>\<open>for\<close> loop; \<open>best\<close> is \<open>(best_loss, best_crypto)\<close>.\<close>

definition scan_symbol ::
  "'ex client \<Rightarrow> string \<Rightarrow> string \<Rightarrow> rat option \<times> string option \<Rightarrow>
   (rat option \<times> string option, 'ex) io" where
  "scan_symbol cl timeframe crypto best =
     try_except
       (bind_io (api (GetKlines crypto timeframe 2) (get_klines cl crypto timeframe 2)) (\<lambda>ohlcv.
        bind_io (lift_io (price_change_percent ohlcv)) (\<lambda>pcp.
        return_io
          (case fst best of
             None \<Rightarrow> (Some pcp, Some crypto)
           | Some best_loss \<Rightarrow> if pcp < best_loss then (Some pcp, Some crypto) else best))))
       (\<lambda>e w. (Inr best, logging (ErrorFetchingCandles crypto e) w))"

fun for_cryptos ::
  "'ex client \<Rightarrow> string \<Rightarrow> string list \<Rightarrow> rat option \<times> string option \<Rightarrow>
   (rat option \<times> string option, 'ex) io" where
  "for_cryptos cl timeframe [] best w = (Inr best, w)"
| "for_cryptos cl timeframe (crypto # rest) best w =
     (case scan_symbol cl timeframe crypto best w of
        (Inl e, w1) \<Rightarrow> (Inl e, w1)
      | (Inr best1, w1) \<Rightarrow> for_cryptos cl timeframe rest best1 w1)"

definition get_top_loss_crypto ::
  "'ex client \<Rightarrow> string list \<Rightarrow> string \<Rightarrow> (string option, 'ex) io" where
  "get_top_loss_crypto cl cryptos_arg timeframe =
     bind_io (for_cryptos cl timeframe cryptos_arg (None, None)) (\<lambda>best w.
       (Inr (snd best), logging (InfoLargestLoss timeframe (snd best) (fst best)) w))"

section \<open>The position sizer\<close>

text \<open>
  Line 69 and the amount of line 77 in exact arithmetic; the binary64 value of the
  fraction is the subject of a section below.
\<close>

definition kelly_criterion :: "rat \<Rightarrow> rat \<Rightarrow> py_error + rat" where
  "kelly_criterion win_prob win_loss_ratio =
     bind_err (py_truediv (1 - win_prob) win_loss_ratio) (\<lambda>q. Inr (win_prob - q))"

section \<open>The order executor\<close>

text \<open>\<open>next(item for item in exchange_info['symbols'] if item['symbol'] == crypto)\<close>\<close>

fun next_symbol :: "string option \<Rightarrow> symbol_info list \<Rightarrow> py_error + symbol_info" where
  "next_symbol crypto [] = Inl StopIteration"
| "next_symbol crypto (item # items) =
     (if Some (symbol item) = crypto then Inr item else next_symbol crypto items)"

text \<open>\<open>next(filter for filter in symbol_info['filters'] if filter['filterType'] == t)\<close>\<close>

fun next_filter :: "string \<Rightarrow> dict list \<Rightarrow> py_error + dict" where
  "next_filter t [] = Inl StopIteration"
| "next_filter t (f # fs) =
     bind_err (py_getitem f ''filterType'') (\<lambda>ft. if ft = t then Inr f else next_filter t fs)"

text \<open>Lines 96 to 104: the quantity adjusted to the LOT\_SIZE filter and rounded.\<close>

definition lot_size_quantity :: "rat \<Rightarrow> dict \<Rightarrow> py_error + rat" where
  "lot_size_quantity amount_to_buy lot_size_filter =
     bind_err (py_getitem lot_size_filter ''minQty'') (\<lambda>s1.
     bind_err (py_float s1) (\<lambda>min_qty.
     bind_err (py_getitem lot_size_filter ''stepSize'') (\<lambda>s2.
     bind_err (py_float s2) (\<lambda>step_size.
     bind_err (py_floordiv amount_to_buy step_size) (\<lambda>q.
     bind_err (py_getitem lot_size_filter ''stepSize'') (\<lambda>s3.
     Inr (py_round (max min_qty (float_mul q step_size)) (str_find s3 CHR ''1'' - 1))))))))"

text \<open>
  The result \<open>(order, current_price)\<close> is \<open>Some (order, current_price)\<close>, and
  \<open>(None, None)\<close> is \<open>None\<close>.
\<close>

definition invest_in_crypto ::
  "'ex client \<Rightarrow> string option \<Rightarrow> rat \<Rightarrow> ((market_order \<times> rat) option, 'ex) io" where
  "invest_in_crypto cl crypto amount_to_invest =
     bind_io (api (GetSymbolTicker crypto) (get_symbol_ticker cl crypto)) (\<lambda>ticker.
     bind_io (lift_io (bind_err (py_getitem ticker ''price'') py_float)) (\<lambda>current_price.
     bind_io (lift_io (float_div amount_to_invest current_price)) (\<lambda>amount_to_buy.
     bind_io (api GetExchangeInfo (get_exchange_info cl)) (\<lambda>info.
     bind_io (lift_io (next_symbol crypto (symbols info))) (\<lambda>symbol_info.
     bind_io (lift_io (next_filter ''LOT_SIZE'' (filters symbol_info))) (\<lambda>lot_size_filter.
     bind_io (lift_io (next_filter ''PRICE_FILTER'' (filters symbol_info))) (\<lambda>precision_filter.
     bind_io (lift_io (lot_size_quantity amount_to_buy lot_size_filter)) (\<lambda>quantity.
     try_except
       (bind_io (api (OrderMarketBuy crypto quantity) (order_market_buy cl crypto quantity))
          (\<lambda>order w.
             (Inr (Some (order, current_price)),
              logging (InfoBought quantity crypto amount_to_invest current_price) w)))
       (\<lambda>e w. (Inr None, logging (ErrorBuyOrder crypto e) w))))))))))"

definition invest_using_kelly ::
  "'ex client \<Rightarrow> string option \<Rightarrow> rat \<Rightarrow> rat \<Rightarrow> rat \<Rightarrow>
   ((market_order \<times> rat) option, 'ex) io" where
  "invest_using_kelly cl crypto usdt_balance win_prob win_loss_ratio =
     bind_io (lift_io (kelly_criterion win_prob win_loss_ratio)) (\<lambda>kelly_fraction.
     invest_in_crypto cl crypto (usdt_balance * kelly_fraction))"

text \<open>\<open>float(order['fills'][0][key])\<close>, read by \<open>sell_crypto\<close> and by the loop.\<close>

definition fill_value :: "market_order \<Rightarrow> string \<Rightarrow> py_error + rat" where
  "fill_value order k =
     bind_err (py_index (fills order) 0) (\<lambda>fill.
     bind_err (py_getitem fill k) py_float)"

definition sell_crypto ::
  "'ex client \<Rightarrow> string option \<Rightarrow> rat \<Rightarrow> (market_order option, 'ex) io" where
  "sell_crypto cl crypto amount =
     try_except
       (bind_io (api (OrderMarketSell crypto (py_round amount 6))
                   (order_market_sell cl crypto (py_round amount 6))) (\<lambda>order.
        bind_io (lift_io (fill_value order ''price'')) (\<lambda>sell_price w.
          (Inr (Some order), logging (InfoSold (py_round amount 6) crypto sell_price) w))))
       (\<lambda>e w. (Inr None, logging (ErrorSellOrder crypto e) w))"

section \<open>The rebound monitor\<close>

text \<open>
  One pass through the body of \<^verbatim>\<open>while True\<close>: the function returns or raises
  (\<open>Exit\<close>), or the loop goes round again in a new world (\<open>Again\<close>).
\<close>

datatype ('r, 'w) iteration = Exit 'r | Again 'w

definition target_gain_default :: rat where
  "target_gain_default = 1005 / 1000"

definition wait_poll ::
  "'ex client \<Rightarrow> string option \<Rightarrow> rat \<Rightarrow> rat \<Rightarrow> 'ex world \<Rightarrow>
   ((py_error + rat) \<times> 'ex world, 'ex world) iteration" where
  "wait_poll cl crypto buy_price target_gain w =
     (case bind_io (api (GetSymbolTicker crypto) (get_symbol_ticker cl crypto))
             (\<lambda>ticker. lift_io (bind_err (py_getitem ticker ''price'') py_float)) w of
        (Inr current_price, w1) \<Rightarrow>
          if buy_price * target_gain \<le> current_price then Exit (Inr current_price, w1)
          else Again (sleep 1 w1)
      | (Inl e, w1) \<Rightarrow>
          if e = BinanceAPIException
          then Again (sleep 1 (logging (ErrorFetchingPrice crypto e) w1))
          else Exit (Inl e, w1))"

text \<open>The loop may run forever: \<open>None\<close> is the call that never returns.\<close>

partial_function (option) wait_for_pump ::
  "'ex client \<Rightarrow> string option \<Rightarrow> rat \<Rightarrow> rat \<Rightarrow> 'ex world \<Rightarrow>
   ((py_error + rat) \<times> 'ex world) option" where
  "wait_for_pump cl crypto buy_price target_gain w =
     (case wait_poll cl crypto buy_price target_gain w of
        Exit r \<Rightarrow> Some r
      | Again w1 \<Rightarrow> wait_for_pump cl crypto buy_price target_gain w1)"

section \<open>The trading loop\<close>

type_synonym active_trade = "string option \<times> rat \<times> rat"

text \<open>
  \<^verbatim>\<open>except Exception\<close> at the top level: the error is logged, the handler sleeps, the
  loop's own sleep follows, and \<open>active_trade\<close> is what it was.
\<close>

definition on_exception ::
  "active_trade option \<Rightarrow> py_error \<Rightarrow> 'ex world \<Rightarrow> active_trade option \<times> 'ex world" where
  "on_exception active_trade e w =
     (active_trade, sleep 1 (sleep 1 (logging (ErrorUnexpected e) w)))"

text \<open>The branch without an active trade; \<^verbatim>\<open>continue\<close> skips the loop's last sleep.\<close>

definition idle_iteration :: "'ex client \<Rightarrow> 'ex world \<Rightarrow> active_trade option \<times> 'ex world" where
  "idle_iteration cl w =
     (case bind_io (api (GetAssetBalance ''USDT'') (get_asset_balance cl ''USDT''))
             (\<lambda>balance. lift_io (bind_err (py_getitem balance ''free'') py_float)) w of
        (Inl e, w1) \<Rightarrow> on_exception None e w1
      | (Inr usdt_balance, w1) \<Rightarrow>
          if usdt_balance < 10 then (None, sleep 1 (logging WarningInsufficientBalance w1))
          else
            (case bind_io (get_top_loss_crypto cl cryptos ''1h'') (\<lambda>top_loss_crypto.
                  bind_io (invest_using_kelly cl top_loss_crypto usdt_balance (6 / 10) 2)
                    (\<lambda>bought. return_io (top_loss_crypto, bought))) w1 of
               (Inl e, w2) \<Rightarrow> on_exception None e w2
             | (Inr (top_loss_crypto, None), w2) \<Rightarrow> (None, w2)
             | (Inr (top_loss_crypto, Some (order, buy_price)), w2) \<Rightarrow>
                 (case fill_value order ''qty'' of
                    Inl e \<Rightarrow> on_exception None e w2
                  | Inr amount_bought \<Rightarrow>
                      (Some (top_loss_crypto, buy_price, amount_bought),
                       sleep 1 (logging
                         (InfoActiveTradeStarted top_loss_crypto buy_price amount_bought) w2)))))"

text \<open>
  The branch with an active trade, once \<open>wait_for_pump\<close> has returned or raised. An
  order that \<open>sell_crypto\<close> returns has its \<^verbatim>\<open>fills\<close> entry, so as a dictionary it is
  not empty and \<^verbatim>\<open>if sell_order\<close> holds for it.
\<close>

definition holding_iteration ::
  "'ex client \<Rightarrow> active_trade \<Rightarrow> (py_error + rat) \<times> 'ex world \<Rightarrow>
   active_trade option \<times> 'ex world" where
  "holding_iteration cl trade waited =
     (case trade of (crypto, buy_price, amount_bought) \<Rightarrow>
        (case waited of
           (Inl e, w1) \<Rightarrow> on_exception (Some trade) e w1
         | (Inr target_price, w1) \<Rightarrow>
             (case sell_crypto cl crypto amount_bought w1 of
                (Inl e, w2) \<Rightarrow> on_exception (Some trade) e w2
              | (Inr (Some sell_order), w2) \<Rightarrow>
                  (None, sleep 1 (sleep 1 (logging (InfoTradeCompleted crypto) w2)))
              | (Inr None, w2) \<Rightarrow>
                  (Some trade, sleep 1 (sleep 1 (logging (ErrorFailedToSell crypto) w2))))))"

text \<open>
  One iteration of \<^verbatim>\<open>while True\<close> in \<open>run_trading_bot\<close>; \<open>None\<close> when the wait for the
  rebound never returns.
\<close>

definition run_iteration ::
  "'ex client \<Rightarrow> active_trade option \<Rightarrow> 'ex world \<Rightarrow> (active_trade option \<times> 'ex world) option" where
  "run_iteration cl active_trade w =
     (case active_trade of
        Some trade \<Rightarrow>
          (case wait_for_pump cl (fst trade) (fst (snd trade)) target_gain_default w of
             None \<Rightarrow> None
           | Some waited \<Rightarrow> Some (holding_iteration cl trade waited))
      | None \<Rightarrow> Some (idle_iteration cl w))"

text \<open>The first \<open>n\<close> iterations of the loop, which has no exit of its own.\<close>

fun run_trading_bot ::
  "nat \<Rightarrow> 'ex client \<Rightarrow> active_trade option \<Rightarrow> 'ex world \<Rightarrow>
   (active_trade option \<times> 'ex world) option" where
  "run_trading_bot 0 cl active_trade w = Some (active_trade, w)"
| "run_trading_bot (Suc n) cl active_trade w =
     (case run_iteration cl active_trade w of
        None \<Rightarrow> None
      | Some (active_trade1, w1) \<Rightarrow> run_trading_bot n cl active_trade1 w1)"

section \<open>The position sizer in binary64\<close>


section \<open>Definitions for the statements\<close>

text \<open>
  What the exchange answers to the scanner's requests, in the order of the watchlist and
  starting from the state \<open>ex\<close>: each symbol with its percent change, or with the
  exception that the \<^verbatim>\<open>try\<close> block raised for it.
\<close>

fun changes_seen ::
  "'ex client \<Rightarrow> string \<Rightarrow> string list \<Rightarrow> 'ex \<Rightarrow> (string \<times> (py_error + rat)) list" where
  "changes_seen cl timeframe [] ex = []"
| "changes_seen cl timeframe (crypto # rest) ex =
     (case get_klines cl crypto timeframe 2 ex of
        (r, ex1) \<Rightarrow> (crypto, bind_err r price_change_percent) # changes_seen cl timeframe rest ex1)"

text \<open>The symbols whose change was computed, and the symbols whose fetch raised.\<close>

fun successes :: "(string \<times> (py_error + rat)) list \<Rightarrow> (string \<times> rat) list" where
  "successes [] = []"
| "successes ((c, Inr v) # rs) = (c, v) # successes rs"
| "successes ((c, Inl e) # rs) = successes rs"

fun failures :: "(string \<times> (py_error + rat)) list \<Rightarrow> string list" where
  "failures [] = []"
| "failures ((c, Inr v) # rs) = failures rs"
| "failures ((c, Inl e) # rs) = c # failures rs"

text \<open>The update of \<open>(best_loss, best_crypto)\<close> in lines 52 to 54.\<close>

definition keep_best :: "rat option \<times> string option \<Rightarrow> string \<times> rat \<Rightarrow> rat option \<times> string option" where
  "keep_best best cv =
     (case fst best of
        None \<Rightarrow> (Some (snd cv), Some (fst cv))
      | Some best_loss \<Rightarrow> if snd cv < best_loss then (Some (snd cv), Some (fst cv)) else best)"

text \<open>
  A scan in which every request either fails with the exception the source catches or
  gives two candles with a readable open (not zero) and close.
\<close>

definition scan_ok :: "(string \<times> (py_error + rat)) list \<Rightarrow> bool" where
  "scan_ok rs = list_all (\<lambda>cr. case snd cr of Inl e \<Rightarrow> e = BinanceAPIException | Inr v \<Rightarrow> True) rs"




definition first_min_at :: "(string \<times> rat) list \<Rightarrow> nat \<Rightarrow> bool" where
  "first_min_at ok i \<longleftrightarrow>
     i < length ok \<and> (\<forall>j<length ok. snd (ok ! i) \<le> snd (ok ! j)) \<and> (\<forall>j<i. snd (ok ! i) < snd (ok ! j))"

text \<open>
  The world after \<open>n\<close> polls of \<open>wait_for_pump\<close> that each went round again; \<open>None\<close>
  when one of them left the loop.
\<close>

fun after_polls ::
  "nat \<Rightarrow> 'ex client \<Rightarrow> string option \<Rightarrow> rat \<Rightarrow> rat \<Rightarrow> 'ex world \<Rightarrow> 'ex world option" where
  "after_polls 0 cl crypto buy_price target_gain w = Some w"
| "after_polls (Suc n) cl crypto buy_price target_gain w =
     (case wait_poll cl crypto buy_price target_gain w of
        Exit r \<Rightarrow> None
      | Again w1 \<Rightarrow> after_polls n cl crypto buy_price target_gain w1)"

section \<open>Example exchanges\<close>

text \<open>
  An exchange whose state counts the requests it has served. It lists the candles of a
  symbol oldest first. From the first candle's open to the second's close BTCUSDT lost
  1 percent and BNBUSDT 2 percent; XRPUSDT and ADAUSDT lost 2 percent too, but in floats
  their change is \<open>-2.0000000000000018\<close>; every other symbol's candles fail.
\<close>

definition candle :: "string \<Rightarrow> string \<Rightarrow> string \<Rightarrow> kline" where
  "candle open_time open_price close_price =
     [open_time, open_price, ''0'', ''0'', close_price, ''0'']"

definition scan_demo_klines :: "string \<Rightarrow> py_error + kline list" where
  "scan_demo_klines crypto =
     (if crypto = ''BTCUSDT'' then
        Inr [candle ''1700000000000'' ''100.00'' ''99.50'',
             candle ''1700003600000'' ''99.50'' ''99.00'']
      else if crypto = ''BNBUSDT'' then
        Inr [candle ''1700000000000'' ''200.0'' ''198.0'',
             candle ''1700003600000'' ''198.0'' ''196.0'']
      else if crypto = ''XRPUSDT'' then
        Inr [candle ''1700000000000'' ''0.50'' ''0.50'',
             candle ''1700003600000'' ''0.50'' ''0.49'']
      else if crypto = ''ADAUSDT'' then
        Inr [candle ''1700000000000'' ''1.00'' ''0.99'',
             candle ''1700003600000'' ''0.99'' ''0.98'']
      else Inl BinanceAPIException)"

text \<open>
  The rules of three symbols, with steps of a thousandth, of 1 and of a tenth, and the
  responses: a ticker, the balance, and the orders' fills. The price of ETHUSDT
  is 2000 when the exchange has served no request yet, fails after one request and is
  2010 from then on; a sale fails until the exchange has served five requests.
\<close>

definition price_filter_demo :: dict where
  "price_filter_demo =
     [(''filterType'', ''PRICE_FILTER''), (''minPrice'', ''0.01000000''),
      (''maxPrice'', ''1000000.00000000''), (''tickSize'', ''0.01000000'')]"

definition lot_size_demo :: "string \<Rightarrow> string \<Rightarrow> dict" where
  "lot_size_demo min_qty step_size =
     [(''filterType'', ''LOT_SIZE''), (''minQty'', min_qty),
      (''maxQty'', ''9000000.00000000''), (''stepSize'', step_size)]"

definition demo_exchange_info :: exchange_info where
  "demo_exchange_info =
     \<lparr>symbols =
        [\<lparr>symbol = ''ETHUSDT'',
          filters = [price_filter_demo, lot_size_demo ''0.00100000'' ''0.00100000'']\<rparr>,
         \<lparr>symbol = ''XRPUSDT'',
          filters = [price_filter_demo, lot_size_demo ''1.00000000'' ''1.00000000'']\<rparr>,
         \<lparr>symbol = ''ADAUSDT'',
          filters = [price_filter_demo, lot_size_demo ''0.10000000'' ''0.10000000'']\<rparr>]\<rparr>"

definition demo_ticker :: "string option \<Rightarrow> nat \<Rightarrow> py_error + dict" where
  "demo_ticker crypto ex =
     (if crypto = Some ''ETHUSDT'' then
        (if ex = 0 then Inr [(''symbol'', ''ETHUSDT''), (''price'', ''2000.00000000'')]
         else if ex = 1 then Inl BinanceAPIException
         else Inr [(''symbol'', ''ETHUSDT''), (''price'', ''2010.00000000'')])
      else if crypto = Some ''XRPUSDT'' then
        Inr [(''symbol'', ''XRPUSDT''), (''price'', ''1.00000000'')]
      else if crypto = Some ''ADAUSDT'' then
        Inr [(''symbol'', ''ADAUSDT''), (''price'', ''1.00000000'')]
      else Inl BinanceAPIException)"

definition demo_order :: "string option \<Rightarrow> py_error + market_order" where
  "demo_order crypto =
     (if crypto = Some ''ETHUSDT'' then
        Inr \<lparr>fills = [[(''price'', ''2010.00000000''), (''qty'', ''0.00400000'')]]\<rparr>
      else if crypto = Some ''XRPUSDT'' then Inr \<lparr>fills = []\<rparr>
      else Inl BinanceAPIException)"

definition demo_client :: "nat client" where
  "demo_client =
     \<lparr>get_klines = (\<lambda>crypto timeframe limit ex. (scan_demo_klines crypto, Suc ex)),
      get_symbol_ticker = (\<lambda>crypto ex. (demo_ticker crypto ex, Suc ex)),
      get_exchange_info = (\<lambda>ex. (Inr demo_exchange_info, Suc ex)),
      get_asset_balance = (\<lambda>asset ex.
        (Inr [(''asset'', asset), (''free'', ''100.00000000''), (''locked'', ''0.00000000'')],
         Suc ex)),
      order_market_buy = (\<lambda>crypto quantity ex. (demo_order crypto, Suc ex)),
      order_market_sell = (\<lambda>crypto quantity ex.
        (if ex < 5 then Inl BinanceAPIException else demo_order crypto, Suc ex))\<rparr>"

text \<open>The same exchange with every candle request failing.\<close>

definition failing_klines_client :: "nat client" where
  "failing_klines_client =
     demo_client\<lparr>get_klines := (\<lambda>crypto timeframe limit ex. (Inl BinanceAPIException, Suc ex))\<rparr>"

text \<open>The same exchange with the candles of every symbol but XRPUSDT failing.\<close>

definition xrp_only_client :: "nat client" where
  "xrp_only_client =
     demo_client\<lparr>get_klines := (\<lambda>crypto timeframe limit ex.
       (if crypto = ''XRPUSDT'' then scan_demo_klines crypto else Inl BinanceAPIException,
        Suc ex))\<rparr>"

definition world0 :: "nat world" where
  "world0 = \<lparr>exchange = 0, calls = [], logged = [], slept = 0\<rparr>"

section \<open>Evaluation\<close>

text \<open>
  Evaluation of binary64 arithmetic on numerals: \<open>round_b64\<close> is unfolded at numerals
  and quotients of numerals only, so that it stays folded on a variable.
\<close>

lemma floor_numeral_div:
  "\<lfloor>numeral a / numeral b :: rat\<rfloor> = numeral a div numeral b"
  "\<lfloor>- numeral a / numeral b :: rat\<rfloor> = - numeral a div numeral b"
  "\<lfloor>- (numeral a / numeral b) :: rat\<rfloor> = - numeral a div numeral b"
  "\<lfloor>1 / numeral b :: rat\<rfloor> = 1 div numeral b"
  "\<lfloor>- (1 / numeral b) :: rat\<rfloor> = - 1 div numeral b"
  using floor_divide_of_int_eq[of "numeral a" "numeral b", where ?'a = rat]
    floor_divide_of_int_eq[of "- numeral a" "numeral b", where ?'a = rat]
    floor_divide_of_int_eq[of 1 "numeral b", where ?'a = rat]
    floor_divide_of_int_eq[of "- 1" "numeral b", where ?'a = rat]
  by simp_all

text \<open>Rounding half to even moves a number by at most a half.\<close>

lemma round_half_even_near: "\<bar>of_int (round_half_even x) - x\<bar> \<le> 1 / 2"
proof -
  have "of_int \<lfloor>x\<rfloor> \<le> x" "x < of_int \<lfloor>x\<rfloor> + 1" by linarith+
  then show ?thesis
    by (auto simp: round_half_even_def Let_def abs_le_iff)
qed

lemma log2_floor_numeral:
  "log2_floor (numeral k) x =
     (if 2 \<le> x then log2_floor (pred_numeral k) (x / 2) + 1
      else if x < 1 then log2_floor (pred_numeral k) (x * 2) - 1
      else 0)"
  by (simp add: numeral_eq_Suc)

lemmas round_b64_eval =
  round_b64_def[of 0] round_b64_def[of 1] round_b64_def[of "- 1"]
  round_b64_def[of "numeral a"] round_b64_def[of "- numeral a"]
  round_b64_def[of "numeral a / numeral b"] round_b64_def[of "- (numeral a / numeral b)"]
  round_b64_def[of "1 / numeral b"] round_b64_def[of "- (1 / numeral b)"]
  for a b

lemmas b64_eval = round_b64_eval pow2_def log2_floor_numeral round_half_even_def
  floor_numeral_div Let_def

lemmas float_eval = float_sub_def float_mul_def float_div_def py_fmod_def py_floordiv_def
  py_round_def b64_eval

lemmas py_eval = py_float_def unsigned_float_def digit_val_def bind_err_def py_index_def
  py_truediv_def py_getitem_def float_eval

lemmas round_eval = str_find_def float_eval

lemmas io_eval = bind_io_def api_def lift_io_def return_io_def try_except_def logging_def
  sleep_def

lemmas demo_eval = demo_client_def demo_ticker_def demo_order_def demo_exchange_info_def
  price_filter_demo_def lot_size_demo_def world0_def

section \<open>The scanner selects the first minimum\<close>

lemma scan_symbol_run:
  "scan_symbol cl tf c best w =
     (case get_klines cl c tf 2 (exchange w) of (r, ex1) \<Rightarrow>
        (case bind_err r price_change_percent of
           Inr v \<Rightarrow> (Inr (keep_best best (c, v)), w\<lparr>exchange := ex1, calls := calls w @ [GetKlines c tf 2]\<rparr>)
         | Inl e \<Rightarrow> if e = BinanceAPIException
             then (Inr best, w\<lparr>exchange := ex1, calls := calls w @ [GetKlines c tf 2],
                     logged := logged w @ [ErrorFetchingCandles c e]\<rparr>)
             else (Inl e, w\<lparr>exchange := ex1, calls := calls w @ [GetKlines c tf 2]\<rparr>)))"
  by (auto simp: scan_symbol_def try_except_def bind_io_def api_def lift_io_def return_io_def
      bind_err_def keep_best_def logging_def split: prod.splits sum.splits option.splits)

lemma for_cryptos_run:
  "scan_ok (changes_seen cl tf cs (exchange w)) \<Longrightarrow>
   \<exists>ex1. for_cryptos cl tf cs best w =
     (Inr (foldl keep_best best (successes (changes_seen cl tf cs (exchange w)))),
      w\<lparr>exchange := ex1,
        calls := calls w @ map (\<lambda>c. GetKlines c tf 2) cs,
        logged := logged w @
          map (\<lambda>c. ErrorFetchingCandles c BinanceAPIException)
            (failures (changes_seen cl tf cs (exchange w)))\<rparr>)"
proof (induction cs arbitrary: best w)
  case Nil
  show ?case by (intro exI[of _ "exchange w"]) simp
next
  case (Cons c cs)
  obtain r ex1 where g: "get_klines cl c tf 2 (exchange w) = (r, ex1)"
    by (cases "get_klines cl c tf 2 (exchange w)")
  from Cons.prems g have ok: "scan_ok (changes_seen cl tf cs ex1)"
    and hd: "case bind_err r price_change_percent of Inl e \<Rightarrow> e = BinanceAPIException | Inr v \<Rightarrow> True"
    by (simp_all add: scan_ok_def)
  show ?case
  proof (cases "bind_err r price_change_percent")
    case (Inr v)
    let ?w1 = "w\<lparr>exchange := ex1, calls := calls w @ [GetKlines c tf 2]\<rparr>"
    from ok have "scan_ok (changes_seen cl tf cs (exchange ?w1))" by simp
    from Cons.IH[OF this, of "keep_best best (c, v)"] obtain ex2 where
      "for_cryptos cl tf cs (keep_best best (c, v)) ?w1 =
        (Inr (foldl keep_best (keep_best best (c, v)) (successes (changes_seen cl tf cs (exchange ?w1)))),
         ?w1\<lparr>exchange := ex2, calls := calls ?w1 @ map (\<lambda>c. GetKlines c tf 2) cs,
           logged := logged ?w1 @ map (\<lambda>c. ErrorFetchingCandles c BinanceAPIException)
             (failures (changes_seen cl tf cs (exchange ?w1)))\<rparr>)" by blast
    with g Inr show ?thesis
      by (intro exI[of _ ex2]) (simp add: scan_symbol_run)
  next
    case (Inl e)
    with hd have e: "e = BinanceAPIException" by simp
    let ?w1 = "w\<lparr>exchange := ex1, calls := calls w @ [GetKlines c tf 2],
                     logged := logged w @ [ErrorFetchingCandles c e]\<rparr>"
    from ok have "scan_ok (changes_seen cl tf cs (exchange ?w1))" by simp
    from Cons.IH[OF this, of best] obtain ex2 where
      "for_cryptos cl tf cs best ?w1 =
        (Inr (foldl keep_best best (successes (changes_seen cl tf cs (exchange ?w1)))),
         ?w1\<lparr>exchange := ex2, calls := calls ?w1 @ map (\<lambda>c. GetKlines c tf 2) cs,
           logged := logged ?w1 @ map (\<lambda>c. ErrorFetchingCandles c BinanceAPIException)
             (failures (changes_seen cl tf cs (exchange ?w1)))\<rparr>)" by blast
    with g Inl e show ?thesis
      by (intro exI[of _ ex2]) (simp add: scan_symbol_run)
  qed
qed


lemma first_min_at_snoc_new:
  assumes "first_min_at xs i" "snd x < snd (xs ! i)"
  shows "first_min_at (xs @ [x]) (length xs)"
  using assms unfolding first_min_at_def
  by (auto simp: nth_append less_Suc_eq)

lemma first_min_at_snoc_old:
  assumes "first_min_at xs i" "\<not> snd x < snd (xs ! i)"
  shows "first_min_at (xs @ [x]) i"
  using assms unfolding first_min_at_def
  by (auto simp: nth_append less_Suc_eq)

lemma foldl_keep_best:
  "ok \<noteq> [] \<Longrightarrow>
   \<exists>i. first_min_at ok i \<and>
       foldl keep_best (None, None) ok = (Some (snd (ok ! i)), Some (fst (ok ! i)))"
proof (induction ok rule: rev_induct)
  case Nil
  then show ?case by simp
next
  case (snoc x xs)
  show ?case
  proof (cases "xs = []")
    case True
    then show ?thesis
      by (intro exI[of _ 0]) (simp add: first_min_at_def keep_best_def)
  next
    case False
    with snoc.IH obtain i where i: "first_min_at xs i"
      and f: "foldl keep_best (None, None) xs = (Some (snd (xs ! i)), Some (fst (xs ! i)))"
      by blast
    from i have il: "i < length xs" by (simp add: first_min_at_def)
    show ?thesis
    proof (cases "snd x < snd (xs ! i)")
      case True
      with i have "first_min_at (xs @ [x]) (length xs)" by (rule first_min_at_snoc_new)
      moreover from True f have "foldl keep_best (None, None) (xs @ [x]) =
          (Some (snd ((xs @ [x]) ! length xs)), Some (fst ((xs @ [x]) ! length xs)))"
        by (simp add: keep_best_def)
      ultimately show ?thesis by blast
    next
      case False
      with i have "first_min_at (xs @ [x]) i" by (rule first_min_at_snoc_old)
      moreover from False f il have "foldl keep_best (None, None) (xs @ [x]) =
          (Some (snd ((xs @ [x]) ! i)), Some (fst ((xs @ [x]) ! i)))"
        by (simp add: keep_best_def nth_append)
      ultimately show ?thesis by blast
    qed
  qed
qed




lemma get_top_loss_crypto_run:
  assumes "scan_ok (changes_seen cl tf cs (exchange w))"
  shows "\<exists>ex1. get_top_loss_crypto cl cs tf w =
     (Inr (snd (foldl keep_best (None, None) (successes (changes_seen cl tf cs (exchange w))))),
      w\<lparr>exchange := ex1,
        calls := calls w @ map (\<lambda>c. GetKlines c tf 2) cs,
        logged := logged w @
          map (\<lambda>c. ErrorFetchingCandles c BinanceAPIException)
            (failures (changes_seen cl tf cs (exchange w))) @
          [InfoLargestLoss tf
             (snd (foldl keep_best (None, None) (successes (changes_seen cl tf cs (exchange w)))))
             (fst (foldl keep_best (None, None) (successes (changes_seen cl tf cs (exchange w)))))]\<rparr>)"
proof -
  from for_cryptos_run[OF assms, of "(None, None)"] obtain ex1 where
    "for_cryptos cl tf cs (None, None) w =
     (Inr (foldl keep_best (None, None) (successes (changes_seen cl tf cs (exchange w)))),
      w\<lparr>exchange := ex1,
        calls := calls w @ map (\<lambda>c. GetKlines c tf 2) cs,
        logged := logged w @
          map (\<lambda>c. ErrorFetchingCandles c BinanceAPIException)
            (failures (changes_seen cl tf cs (exchange w)))\<rparr>)" by blast
  then show ?thesis
    by (intro exI[of _ ex1]) (simp add: get_top_loss_crypto_def bind_io_def logging_def)
qed

lemma successes_empty_iff:
  "scan_ok rs \<Longrightarrow>
     successes rs = [] \<longleftrightarrow> list_all (\<lambda>cr. snd cr = Inl BinanceAPIException) rs"
  by (induction rs rule: successes.induct) (auto simp: scan_ok_def)

lemma foldl_keep_best_None:
  "snd (foldl keep_best (None, None) ok) = None \<longleftrightarrow> ok = []"
proof (cases "ok = []")
  case True
  then show ?thesis by simp
next
  case False
  from foldl_keep_best[OF this] show ?thesis using False by auto
qed

lemma successes_subset: "fst ` set (successes rs) \<subseteq> fst ` set rs"
  by (induction rs rule: successes.induct) auto

lemma demo_changes_seen:
  "changes_seen demo_client ''1h''
     [''BTCUSDT'', ''ETHUSDT'', ''BNBUSDT'', ''XRPUSDT'', ''ADAUSDT''] 0 =
     [(''BTCUSDT'', Inr (- 1)), (''ETHUSDT'', Inl BinanceAPIException),
      (''BNBUSDT'', Inr (- 2)),
      (''XRPUSDT'', Inr (- (1125899906842625 / 562949953421312))),
      (''ADAUSDT'', Inr (- (1125899906842625 / 562949953421312)))]"
  by (simp add: demo_client_def scan_demo_klines_def price_change_percent_def candle_def py_eval)

lemma demo_scan:
  "get_top_loss_crypto demo_client
     [''BTCUSDT'', ''ETHUSDT'', ''BNBUSDT'', ''XRPUSDT'', ''ADAUSDT''] ''1h'' world0 =
     (Inr (Some ''XRPUSDT''),
      \<lparr>exchange = 5,
       calls = [GetKlines ''BTCUSDT'' ''1h'' 2, GetKlines ''ETHUSDT'' ''1h'' 2,
                GetKlines ''BNBUSDT'' ''1h'' 2, GetKlines ''XRPUSDT'' ''1h'' 2,
                GetKlines ''ADAUSDT'' ''1h'' 2],
       logged = [ErrorFetchingCandles ''ETHUSDT'' BinanceAPIException,
                 InfoLargestLoss ''1h'' (Some ''XRPUSDT'')
                   (Some (- (1125899906842625 / 562949953421312)))],
       slept = 0\<rparr>)"
  by (simp add: get_top_loss_crypto_def scan_symbol_def try_except_def bind_io_def api_def
      lift_io_def return_io_def logging_def world0_def
      demo_client_def scan_demo_klines_def price_change_percent_def candle_def py_eval)




section \<open>A failed fetch is skipped\<close>

text \<open>
  C8. In a scan whose requests each fail with BinanceAPIException or give two readable
  candles, whichever symbols fail: the scan does not raise, every symbol of the
  watchlist is requested in order, one error is logged for each failing symbol, and then
  the result. The result is \<^verbatim>\<open>None\<close> exactly when every request failed, and a symbol
  that is returned is one whose candles were fetched.
\<close>

theorem scan_skips_failed_fetches:
  assumes "scan_ok (changes_seen cl timeframe watchlist (exchange w))"
  shows
    "let seen = changes_seen cl timeframe watchlist (exchange w) in
     \<exists>best loss ex1.
       get_top_loss_crypto cl watchlist timeframe w =
         (Inr best,
          w\<lparr>exchange := ex1,
            calls := calls w @ map (\<lambda>c. GetKlines c timeframe 2) watchlist,
            logged := logged w @
              map (\<lambda>c. ErrorFetchingCandles c BinanceAPIException) (failures seen) @
              [InfoLargestLoss timeframe best loss]\<rparr>) \<and>
       (best = None \<longleftrightarrow> list_all (\<lambda>cr. snd cr = Inl BinanceAPIException) seen) \<and>
       (\<forall>s. best = Some s \<longrightarrow> s \<in> fst ` set (successes seen))"
proof -
  define seen where "seen = changes_seen cl timeframe watchlist (exchange w)"
  define best where "best = foldl keep_best (None, None) (successes seen)"
  from get_top_loss_crypto_run[OF assms] obtain ex1 where run:
    "get_top_loss_crypto cl watchlist timeframe w =
       (Inr (snd best),
        w\<lparr>exchange := ex1,
          calls := calls w @ map (\<lambda>c. GetKlines c timeframe 2) watchlist,
          logged := logged w @
            map (\<lambda>c. ErrorFetchingCandles c BinanceAPIException) (failures seen) @
            [InfoLargestLoss timeframe (snd best) (fst best)]\<rparr>)"
    unfolding seen_def best_def by blast
  have none: "snd best = None \<longleftrightarrow> list_all (\<lambda>cr. snd cr = Inl BinanceAPIException) seen"
    using successes_empty_iff[OF assms] foldl_keep_best_None[of "successes seen"]
    unfolding seen_def best_def by simp
  have some: "\<forall>s. snd best = Some s \<longrightarrow> s \<in> fst ` set (successes seen)"
  proof (intro allI impI)
    fix s assume s: "snd best = Some s"
    then have ne: "successes seen \<noteq> []"
      using foldl_keep_best_None[of "successes seen"] unfolding best_def by auto
    from foldl_keep_best[OF ne] obtain i where "first_min_at (successes seen) i"
      "best = (Some (snd (successes seen ! i)), Some (fst (successes seen ! i)))"
      unfolding best_def by blast
    with s have "i < length (successes seen)" "s = fst (successes seen ! i)"
      by (simp_all add: first_min_at_def)
    then show "s \<in> fst ` set (successes seen)" by (metis imageI nth_mem)
  qed
  from run none some show ?thesis
    unfolding seen_def[symmetric] Let_def
    by (intro exI[of _ "snd best"] exI[of _ "fst best"] exI[of _ ex1]) simp
qed

theorem scan_skips_failed_fetches_witness:
  "scan_ok (changes_seen demo_client ''1h''
      [''BTCUSDT'', ''ETHUSDT'', ''BNBUSDT'', ''XRPUSDT'', ''ADAUSDT''] (exchange world0)) \<and>
   failures (changes_seen demo_client ''1h''
      [''BTCUSDT'', ''ETHUSDT'', ''BNBUSDT'', ''XRPUSDT'', ''ADAUSDT''] (exchange world0)) =
     [''ETHUSDT''] \<and>
   get_top_loss_crypto demo_client
     [''BTCUSDT'', ''ETHUSDT'', ''BNBUSDT'', ''XRPUSDT'', ''ADAUSDT''] ''1h'' world0 =
     (Inr (Some ''XRPUSDT''),
      \<lparr>exchange = 5,
       calls = [GetKlines ''BTCUSDT'' ''1h'' 2, GetKlines ''ETHUSDT'' ''1h'' 2,
                GetKlines ''BNBUSDT'' ''1h'' 2, GetKlines ''XRPUSDT'' ''1h'' 2,
                GetKlines ''ADAUSDT'' ''1h'' 2],
       logged = [ErrorFetchingCandles ''ETHUSDT'' BinanceAPIException,
                 InfoLargestLoss ''1h'' (Some ''XRPUSDT'')
                   (Some (- (1125899906842625 / 562949953421312)))],
       slept = 0\<rparr>)"
proof -
  have h: "scan_ok (changes_seen demo_client ''1h''
      [''BTCUSDT'', ''ETHUSDT'', ''BNBUSDT'', ''XRPUSDT'', ''ADAUSDT''] (exchange world0))"
    by (simp add: world0_def demo_changes_seen scan_ok_def del: changes_seen.simps)
  show ?thesis
    using h scan_skips_failed_fetches[OF h]
    by (simp add: world0_def demo_changes_seen demo_scan[unfolded world0_def]
        del: changes_seen.simps)
qed

text \<open>
  The handler is for BinanceAPIException alone: any other exception raised for a symbol
  leaves the scan at that symbol, and the symbols after it are not requested.
\<close>

lemma scan_other_exception_aborts:
  assumes "get_klines cl crypto timeframe 2 (exchange w) = (r, ex1)"
    and "bind_err r price_change_percent = Inl e" and "e \<noteq> BinanceAPIException"
  shows "for_cryptos cl timeframe (crypto # rest) best w =
     (Inl e, w\<lparr>exchange := ex1, calls := calls w @ [GetKlines crypto timeframe 2]\<rparr>)"
  using assms by (simp add: scan_symbol_run)

section \<open>The quantity of a buy order\<close>








text \<open>
  \<open>round(x, n)\<close> for \<open>n \<ge> 0\<close> is the float nearest to a decimal of \<open>n\<close> places that lies
  within half a unit of the \<open>n\<close>-th place of the float \<open>x\<close>.
\<close>

lemma py_round_near:
  "\<exists>j. py_round x (int n) = round_b64 (of_int j / 10 ^ n) \<and>
       \<bar>of_int j - round_b64 x * 10 ^ n\<bar> \<le> 1 / 2"
proof -
  have "py_round x (int n) =
      round_b64 (of_int (round_half_even (round_b64 x * 10 ^ n)) / 10 ^ n)"
    by (simp add: py_round_def)
  moreover have "\<bar>of_int (round_half_even (round_b64 x * 10 ^ n)) - round_b64 x * 10 ^ n\<bar>
      \<le> 1 / 2"
    by (rule round_half_even_near)
  ultimately show ?thesis by blast
qed


lemma demo_invest_eth:
  "invest_in_crypto demo_client (Some ''ETHUSDT'') 9 world0 =
  (Inr (Some (\<lparr>fills = [[(''price'', ''2010.00000000''), (''qty'', ''0.00400000'')]]\<rparr>, 2000)),
   \<lparr>exchange = 3,
    calls = [GetSymbolTicker (Some ''ETHUSDT''), GetExchangeInfo,
             OrderMarketBuy (Some ''ETHUSDT'') (round_b64 (4 / 1000))],
    logged = [InfoBought (round_b64 (4 / 1000)) (Some ''ETHUSDT'') 9 2000],
    slept = 0\<rparr>)"
  by (simp add: invest_in_crypto_def lot_size_quantity_def io_eval demo_eval py_eval round_eval)



section \<open>A step of 1\<close>

text \<open>
  C2. With the rules \<^verbatim>\<open>minQty = stepSize = 1.00000000\<close> the first 1 of the step's string
  is at position 0, so the quantity is rounded to \<open>-1\<close> decimals, that is to tens: for a
  price of 1 and 4 USDT to invest the quantity 4 becomes 0, below minQty, and that is
  what the buy order is sent with.
\<close>

theorem invest_in_crypto_step_one_submits_zero:
  "py_float ''1.00000000'' = Inr 1 \<and>
   str_find ''1.00000000'' CHR ''1'' - 1 = - 1 \<and>
   lot_size_quantity 4 (lot_size_demo ''1.00000000'' ''1.00000000'') = Inr 0 \<and>
   calls (snd (invest_in_crypto demo_client (Some ''XRPUSDT'') 4 world0)) =
     [GetSymbolTicker (Some ''XRPUSDT''), GetExchangeInfo, OrderMarketBuy (Some ''XRPUSDT'') 0]"
  by (simp add: invest_in_crypto_def lot_size_quantity_def io_eval demo_eval py_eval round_eval)

section \<open>The sale rounds to six decimals\<close>

text \<open>
  C7. Whatever the exchange and the symbol's rules, \<open>sell_crypto\<close> sends one request, the
  sell order, with the amount rounded to six decimals: the float nearest to a decimal of
  six places within half a millionth of the amount. It does not read the symbol's rules.
  1.23456789 is sent as 1.234568. The buy path rounds to the decimals of the symbol's
  step instead: for a step of 0.00000001 it makes of 1.23456789 the quantity 1.23456788,
  of eight decimals, which the sale then sends as 1.234568, two decimals coarser.
\<close>

theorem sell_crypto_rounds_to_six_decimals:
  "calls (snd (sell_crypto cl crypto amount w)) =
     calls w @ [OrderMarketSell crypto (py_round amount 6)] \<and>
   (\<exists>j. py_round amount 6 = round_b64 (of_int j / 10 ^ 6) \<and>
        \<bar>of_int j - round_b64 amount * 10 ^ 6\<bar> \<le> 1 / 2) \<and>
   py_round (123456789 / 100000000) 6 = round_b64 (1234568 / 1000000) \<and>
   lot_size_quantity (123456789 / 100000000) (lot_size_demo ''0.00000001'' ''0.00000001'') =
     Inr (round_b64 (123456788 / 100000000)) \<and>
   py_round (round_b64 (123456788 / 100000000)) 6 = round_b64 (1234568 / 1000000) \<and>
   round_b64 (1234568 / 1000000) \<noteq> round_b64 (123456788 / 100000000)"
proof -
  have "calls (snd (sell_crypto cl crypto amount w)) =
     calls w @ [OrderMarketSell crypto (py_round amount 6)]"
    by (simp add: sell_crypto_def io_eval split: prod.splits sum.splits)
  moreover have "\<exists>j. py_round amount 6 = round_b64 (of_int j / 10 ^ 6) \<and>
        \<bar>of_int j - round_b64 amount * 10 ^ 6\<bar> \<le> 1 / 2"
    using py_round_near[of amount 6] by simp
  moreover have "py_round (123456789 / 100000000) 6 = round_b64 (1234568 / 1000000)"
    by (simp add: round_eval)
  moreover have "lot_size_quantity (123456789 / 100000000)
      (lot_size_demo ''0.00000001'' ''0.00000001'') = Inr (round_b64 (123456788 / 100000000))"
    by (simp add: lot_size_quantity_def lot_size_demo_def py_eval round_eval)
  moreover have "py_round (round_b64 (123456788 / 100000000)) 6 = round_b64 (1234568 / 1000000)"
    by (simp add: round_eval)
  moreover have "round_b64 (1234568 / 1000000) \<noteq> round_b64 (123456788 / 100000000)"
    by (simp add: round_eval)
  ultimately show ?thesis by blast
qed

section \<open>The wait for the rebound\<close>





lemma wait_for_pump_after_polls:
  "after_polls n cl crypto bp tg w = Some w1 \<Longrightarrow>
   wait_for_pump cl crypto bp tg w = wait_for_pump cl crypto bp tg w1"
proof (induction n arbitrary: w)
  case 0
  then show ?case by simp
next
  case (Suc n)
  then obtain w2 where p: "wait_poll cl crypto bp tg w = Again w2"
    and a: "after_polls n cl crypto bp tg w2 = Some w1"
    by (auto split: iteration.splits)
  from p have "wait_for_pump cl crypto bp tg w = wait_for_pump cl crypto bp tg w2"
    by (subst wait_for_pump.simps) simp
  with Suc.IH[OF a] show ?case by simp
qed

lemma wait_for_pump_exit:
  assumes "after_polls n cl crypto bp tg w = Some w1" "wait_poll cl crypto bp tg w1 = Exit r"
  shows "wait_for_pump cl crypto bp tg w = Some r"
proof -
  from assms(2) have "wait_for_pump cl crypto bp tg w1 = Some r"
    by (subst wait_for_pump.simps) simp
  with wait_for_pump_after_polls[OF assms(1)] show ?thesis by simp
qed








lemma demo_polls:
  "wait_poll demo_client (Some ''ETHUSDT'') 2000 target_gain_default world0 =
     Again \<lparr>exchange = 1, calls = [GetSymbolTicker (Some ''ETHUSDT'')], logged = [], slept = 1\<rparr>"
  "wait_poll demo_client (Some ''ETHUSDT'') 2000 target_gain_default
     \<lparr>exchange = 1, calls = [GetSymbolTicker (Some ''ETHUSDT'')], logged = [], slept = 1\<rparr> =
     Again \<lparr>exchange = 2,
       calls = [GetSymbolTicker (Some ''ETHUSDT''), GetSymbolTicker (Some ''ETHUSDT'')],
       logged = [ErrorFetchingPrice (Some ''ETHUSDT'') BinanceAPIException], slept = 2\<rparr>"
  "wait_poll demo_client (Some ''ETHUSDT'') 2000 target_gain_default
     \<lparr>exchange = 2,
       calls = [GetSymbolTicker (Some ''ETHUSDT''), GetSymbolTicker (Some ''ETHUSDT'')],
       logged = [ErrorFetchingPrice (Some ''ETHUSDT'') BinanceAPIException], slept = 2\<rparr> =
     Exit (Inr 2010,
       \<lparr>exchange = 3,
        calls = [GetSymbolTicker (Some ''ETHUSDT''), GetSymbolTicker (Some ''ETHUSDT''),
                 GetSymbolTicker (Some ''ETHUSDT'')],
        logged = [ErrorFetchingPrice (Some ''ETHUSDT'') BinanceAPIException], slept = 2\<rparr>)"
  by (simp_all add: wait_poll_def target_gain_default_def io_eval demo_eval py_eval)

lemma demo_after_two_polls:
  "after_polls 2 demo_client (Some ''ETHUSDT'') 2000 target_gain_default world0 =
     Some \<lparr>exchange = 2,
       calls = [GetSymbolTicker (Some ''ETHUSDT''), GetSymbolTicker (Some ''ETHUSDT'')],
       logged = [ErrorFetchingPrice (Some ''ETHUSDT'') BinanceAPIException], slept = 2\<rparr>"
  by (simp add: numeral_2_eq_2 wait_poll_def target_gain_default_def io_eval demo_eval py_eval)



section \<open>Holding through a failed sale\<close>

lemma unsigned_float_error: "unsigned_float s = Inl e \<Longrightarrow> e = ValueError"
  by (auto simp: unsigned_float_def Let_def split: if_splits option.splits)

lemma py_float_error: "py_float s = Inl e \<Longrightarrow> e = ValueError"
  by (cases s)
    (auto simp: py_float_def bind_err_def split: if_splits sum.splits dest: unsigned_float_error)

lemma fill_value_error:
  "fill_value order k = Inl e \<Longrightarrow>
     (e = IndexError \<and> fills order = []) \<or> (e = KeyError \<and> fills order \<noteq> []) \<or>
     (e = ValueError \<and> fills order \<noteq> [])"
  by (auto simp: fill_value_def bind_err_def py_index_def py_getitem_def
      split: if_splits sum.splits option.splits dest: py_float_error)

lemma fill_value_empty: "fills order = [] \<Longrightarrow> fill_value order k = Inl IndexError"
  by (simp add: fill_value_def bind_err_def py_index_def)

lemma fill_value_first:
  "fills order = f # fs \<Longrightarrow> fill_value order k = bind_err (py_getitem f k) py_float"
  by (simp add: fill_value_def bind_err_def py_index_def)

lemma sell_crypto_cases:
  "sell_crypto cl crypto amount w =
     (case order_market_sell cl crypto (py_round amount 6) (exchange w) of (r, ex1) \<Rightarrow>
        (case r of
           Inl e \<Rightarrow>
             if e = BinanceAPIException
             then (Inr None,
                   w\<lparr>exchange := ex1,
                     calls := calls w @ [OrderMarketSell crypto (py_round amount 6)],
                     logged := logged w @ [ErrorSellOrder crypto e]\<rparr>)
             else (Inl e,
                   w\<lparr>exchange := ex1,
                     calls := calls w @ [OrderMarketSell crypto (py_round amount 6)]\<rparr>)
         | Inr order \<Rightarrow>
             (case fill_value order ''price'' of
                Inl e \<Rightarrow>
                  (Inl e,
                   w\<lparr>exchange := ex1,
                     calls := calls w @ [OrderMarketSell crypto (py_round amount 6)]\<rparr>)
              | Inr sell_price \<Rightarrow>
                  (Inr (Some order),
                   w\<lparr>exchange := ex1,
                     calls := calls w @ [OrderMarketSell crypto (py_round amount 6)],
                     logged := logged w @
                       [InfoSold (py_round amount 6) crypto sell_price]\<rparr>))))"
proof -
  have nb: "\<And>order. fill_value order ''price'' \<noteq> Inl BinanceAPIException"
    using fill_value_error by fastforce
  show ?thesis
    using nb
    by (auto simp: sell_crypto_def try_except_def bind_io_def api_def lift_io_def logging_def
        split: prod.splits sum.splits)
qed

lemma run_iteration_holding:
  assumes "wait_for_pump cl crypto buy_price target_gain_default w = Some (Inr p, w1)"
    and "sell_crypto cl crypto amount w1 = (r, w2)"
  shows "run_iteration cl (Some (crypto, buy_price, amount)) w =
     Some (case r of
             Inl e \<Rightarrow> (Some (crypto, buy_price, amount),
                       w2\<lparr>logged := logged w2 @ [ErrorUnexpected e], slept := slept w2 + 2\<rparr>)
           | Inr None \<Rightarrow> (Some (crypto, buy_price, amount),
                       w2\<lparr>logged := logged w2 @ [ErrorFailedToSell crypto], slept := slept w2 + 2\<rparr>)
           | Inr (Some sell_order) \<Rightarrow> (None,
                       w2\<lparr>logged := logged w2 @ [InfoTradeCompleted crypto], slept := slept w2 + 2\<rparr>))"
  using assms
  by (simp add: run_iteration_def holding_iteration_def on_exception_def logging_def sleep_def
      split: sum.splits option.splits)


text \<open>
  C4. In an iteration that starts with an active trade and whose wait has returned: when
  the sell order fails with BinanceAPIException, the failure is logged, the active trade
  is the same afterwards and the loop goes on from it, so the next iteration waits and
  sells again; when the sell order is answered with an order whose first fill has a
  readable price, the active trade is cleared and the loop goes on without one. In every
  case the trade is either kept unchanged or cleared, and it is cleared exactly when
  \<open>sell_crypto\<close> returned an order.
\<close>

theorem holding_keeps_trade_until_sold:
  assumes "wait_for_pump cl crypto buy_price target_gain_default w = Some (Inr p, w1)"
    and "order_market_sell cl crypto (py_round amount 6) (exchange w1) = (r, ex2)"
  shows
    "(r = Inl BinanceAPIException \<longrightarrow>
        run_iteration cl (Some (crypto, buy_price, amount)) w =
          Some (Some (crypto, buy_price, amount),
            w1\<lparr>exchange := ex2,
              calls := calls w1 @ [OrderMarketSell crypto (py_round amount 6)],
              logged := logged w1 @
                [ErrorSellOrder crypto BinanceAPIException, ErrorFailedToSell crypto],
              slept := slept w1 + 2\<rparr>) \<and>
        (\<forall>n. run_trading_bot (Suc n) cl (Some (crypto, buy_price, amount)) w =
           run_trading_bot n cl (Some (crypto, buy_price, amount))
             (w1\<lparr>exchange := ex2,
               calls := calls w1 @ [OrderMarketSell crypto (py_round amount 6)],
               logged := logged w1 @
                 [ErrorSellOrder crypto BinanceAPIException, ErrorFailedToSell crypto],
               slept := slept w1 + 2\<rparr>))) \<and>
     (\<forall>order sell_price. r = Inr order \<and> fill_value order ''price'' = Inr sell_price \<longrightarrow>
        run_iteration cl (Some (crypto, buy_price, amount)) w =
          Some (None,
            w1\<lparr>exchange := ex2,
              calls := calls w1 @ [OrderMarketSell crypto (py_round amount 6)],
              logged := logged w1 @
                [InfoSold (py_round amount 6) crypto sell_price, InfoTradeCompleted crypto],
              slept := slept w1 + 2\<rparr>) \<and>
        (\<forall>n. run_trading_bot (Suc n) cl (Some (crypto, buy_price, amount)) w =
           run_trading_bot n cl None
             (w1\<lparr>exchange := ex2,
               calls := calls w1 @ [OrderMarketSell crypto (py_round amount 6)],
               logged := logged w1 @
                 [InfoSold (py_round amount 6) crypto sell_price, InfoTradeCompleted crypto],
               slept := slept w1 + 2\<rparr>))) \<and>
     (\<exists>active_trade w3.
        run_iteration cl (Some (crypto, buy_price, amount)) w = Some (active_trade, w3) \<and>
        (active_trade = Some (crypto, buy_price, amount) \<or> active_trade = None) \<and>
        (active_trade = None \<longleftrightarrow>
           (\<exists>order. fst (sell_crypto cl crypto amount w1) = Inr (Some order))))"
proof (intro conjI impI allI)
  assume r: "r = Inl BinanceAPIException"
  with assms(2) have s: "sell_crypto cl crypto amount w1 =
      (Inr None,
       w1\<lparr>exchange := ex2, calls := calls w1 @ [OrderMarketSell crypto (py_round amount 6)],
          logged := logged w1 @ [ErrorSellOrder crypto BinanceAPIException]\<rparr>)"
    by (simp add: sell_crypto_cases)
  from run_iteration_holding[OF assms(1) s]
  show it: "run_iteration cl (Some (crypto, buy_price, amount)) w =
          Some (Some (crypto, buy_price, amount),
            w1\<lparr>exchange := ex2,
              calls := calls w1 @ [OrderMarketSell crypto (py_round amount 6)],
              logged := logged w1 @
                [ErrorSellOrder crypto BinanceAPIException, ErrorFailedToSell crypto],
              slept := slept w1 + 2\<rparr>)"
    by simp
  fix n
  from it show "run_trading_bot (Suc n) cl (Some (crypto, buy_price, amount)) w =
           run_trading_bot n cl (Some (crypto, buy_price, amount))
             (w1\<lparr>exchange := ex2,
               calls := calls w1 @ [OrderMarketSell crypto (py_round amount 6)],
               logged := logged w1 @
                 [ErrorSellOrder crypto BinanceAPIException, ErrorFailedToSell crypto],
               slept := slept w1 + 2\<rparr>)"
    by simp
next
  fix order sell_price
  assume r: "r = Inr order \<and> fill_value order ''price'' = Inr sell_price"
  with assms(2) have s: "sell_crypto cl crypto amount w1 =
      (Inr (Some order),
       w1\<lparr>exchange := ex2, calls := calls w1 @ [OrderMarketSell crypto (py_round amount 6)],
          logged := logged w1 @ [InfoSold (py_round amount 6) crypto sell_price]\<rparr>)"
    by (simp add: sell_crypto_cases)
  from run_iteration_holding[OF assms(1) s]
  show it: "run_iteration cl (Some (crypto, buy_price, amount)) w =
          Some (None,
            w1\<lparr>exchange := ex2,
              calls := calls w1 @ [OrderMarketSell crypto (py_round amount 6)],
              logged := logged w1 @
                [InfoSold (py_round amount 6) crypto sell_price, InfoTradeCompleted crypto],
              slept := slept w1 + 2\<rparr>)"
    by simp
  fix n
  from it show "run_trading_bot (Suc n) cl (Some (crypto, buy_price, amount)) w =
           run_trading_bot n cl None
             (w1\<lparr>exchange := ex2,
               calls := calls w1 @ [OrderMarketSell crypto (py_round amount 6)],
               logged := logged w1 @
                 [InfoSold (py_round amount 6) crypto sell_price, InfoTradeCompleted crypto],
               slept := slept w1 + 2\<rparr>)"
    by simp
next
  obtain r' w2 where s: "sell_crypto cl crypto amount w1 = (r', w2)"
    by (cases "sell_crypto cl crypto amount w1")
  from run_iteration_holding[OF assms(1) s] s
  show "\<exists>active_trade w3.
        run_iteration cl (Some (crypto, buy_price, amount)) w = Some (active_trade, w3) \<and>
        (active_trade = Some (crypto, buy_price, amount) \<or> active_trade = None) \<and>
        (active_trade = None \<longleftrightarrow>
           (\<exists>order. fst (sell_crypto cl crypto amount w1) = Inr (Some order)))"
    by (auto split: sum.splits option.splits)
qed

lemma demo_wait_eth:
  "wait_for_pump demo_client (Some ''ETHUSDT'') 2000 target_gain_default world0 =
     Some (Inr 2010,
       \<lparr>exchange = 3,
        calls = [GetSymbolTicker (Some ''ETHUSDT''), GetSymbolTicker (Some ''ETHUSDT''),
                 GetSymbolTicker (Some ''ETHUSDT'')],
        logged = [ErrorFetchingPrice (Some ''ETHUSDT'') BinanceAPIException], slept = 2\<rparr>)"
  using demo_after_two_polls demo_polls(3) by (rule wait_for_pump_exit)

lemma demo_wait_eth_again:
  "wait_for_pump demo_client (Some ''ETHUSDT'') 2000 target_gain_default
     \<lparr>exchange = 4, calls = cs, logged = ls, slept = n\<rparr> =
     Some (Inr 2010,
       \<lparr>exchange = 5, calls = cs @ [GetSymbolTicker (Some ''ETHUSDT'')], logged = ls,
        slept = n\<rparr>)"
proof -
  have "wait_poll demo_client (Some ''ETHUSDT'') 2000 target_gain_default
     \<lparr>exchange = 4, calls = cs, logged = ls, slept = n\<rparr> =
     Exit (Inr 2010,
       \<lparr>exchange = 5, calls = cs @ [GetSymbolTicker (Some ''ETHUSDT'')], logged = ls,
        slept = n\<rparr>)"
    by (simp add: wait_poll_def target_gain_default_def io_eval demo_eval py_eval)
  then show ?thesis by (subst wait_for_pump.simps) simp
qed

theorem holding_keeps_trade_until_sold_witness:
  "run_trading_bot 1 demo_client (Some (Some ''ETHUSDT'', 2000, round_b64 (1 / 250)))
     world0 =
     Some (Some (Some ''ETHUSDT'', 2000, round_b64 (1 / 250)),
       \<lparr>exchange = 4,
        calls = [GetSymbolTicker (Some ''ETHUSDT''), GetSymbolTicker (Some ''ETHUSDT''),
                 GetSymbolTicker (Some ''ETHUSDT''),
                 OrderMarketSell (Some ''ETHUSDT'') (round_b64 (1 / 250))],
        logged = [ErrorFetchingPrice (Some ''ETHUSDT'') BinanceAPIException,
                  ErrorSellOrder (Some ''ETHUSDT'') BinanceAPIException,
                  ErrorFailedToSell (Some ''ETHUSDT'')],
        slept = 4\<rparr>) \<and>
   run_trading_bot 2 demo_client (Some (Some ''ETHUSDT'', 2000, round_b64 (1 / 250)))
     world0 =
     Some (None,
       \<lparr>exchange = 6,
        calls = [GetSymbolTicker (Some ''ETHUSDT''), GetSymbolTicker (Some ''ETHUSDT''),
                 GetSymbolTicker (Some ''ETHUSDT''),
                 OrderMarketSell (Some ''ETHUSDT'') (round_b64 (1 / 250)),
                 GetSymbolTicker (Some ''ETHUSDT''),
                 OrderMarketSell (Some ''ETHUSDT'') (round_b64 (1 / 250))],
        logged = [ErrorFetchingPrice (Some ''ETHUSDT'') BinanceAPIException,
                  ErrorSellOrder (Some ''ETHUSDT'') BinanceAPIException,
                  ErrorFailedToSell (Some ''ETHUSDT''),
                  InfoSold (round_b64 (1 / 250)) (Some ''ETHUSDT'') 2010,
                  InfoTradeCompleted (Some ''ETHUSDT'')],
        slept = 6\<rparr>)"
proof -
  let ?w1 = "\<lparr>exchange = 3 :: nat,
        calls = [GetSymbolTicker (Some ''ETHUSDT''), GetSymbolTicker (Some ''ETHUSDT''),
                 GetSymbolTicker (Some ''ETHUSDT'')],
        logged = [ErrorFetchingPrice (Some ''ETHUSDT'') BinanceAPIException], slept = 2\<rparr>"
  let ?wA = "\<lparr>exchange = 4 :: nat,
        calls = [GetSymbolTicker (Some ''ETHUSDT''), GetSymbolTicker (Some ''ETHUSDT''),
                 GetSymbolTicker (Some ''ETHUSDT''),
                 OrderMarketSell (Some ''ETHUSDT'') (round_b64 (1 / 250))],
        logged = [ErrorFetchingPrice (Some ''ETHUSDT'') BinanceAPIException,
                  ErrorSellOrder (Some ''ETHUSDT'') BinanceAPIException,
                  ErrorFailedToSell (Some ''ETHUSDT'')],
        slept = 4\<rparr>"
  let ?order = "\<lparr>fills = [[(''price'', ''2010.00000000''), (''qty'', ''0.00400000'')]]\<rparr>"
  have r6: "py_round (round_b64 (1 / 250)) 6 = round_b64 (1 / 250)" by (simp add: round_eval)
  have s1: "order_market_sell demo_client (Some ''ETHUSDT'')
      (py_round (round_b64 (1 / 250)) 6) (exchange ?w1) = (Inl BinanceAPIException, 4)"
    by (simp add: demo_eval)
  have i1: "run_iteration demo_client (Some (Some ''ETHUSDT'', 2000, round_b64 (1 / 250)))
      world0 =
      Some (Some (Some ''ETHUSDT'', 2000, round_b64 (1 / 250)), ?wA)"
    using holding_keeps_trade_until_sold[OF demo_wait_eth s1] by (simp add: r6)
  let ?w2 = "\<lparr>exchange = 5 :: nat, calls = calls ?wA @ [GetSymbolTicker (Some ''ETHUSDT'')],
      logged = logged ?wA, slept = 4\<rparr>"
  have w2: "wait_for_pump demo_client (Some ''ETHUSDT'') 2000 target_gain_default ?wA =
      Some (Inr 2010, ?w2)"
    by (simp add: demo_wait_eth_again)
  have s2: "order_market_sell demo_client (Some ''ETHUSDT'')
      (py_round (round_b64 (1 / 250)) 6) (exchange ?w2) = (Inr ?order, 6)"
    by (simp add: demo_eval)
  have p: "fill_value ?order ''price'' = Inr 2010"
    by (simp add: fill_value_def py_eval)
  have i2: "run_iteration demo_client (Some (Some ''ETHUSDT'', 2000, round_b64 (1 / 250)))
      ?wA =
      Some (None,
       \<lparr>exchange = 6,
        calls = [GetSymbolTicker (Some ''ETHUSDT''), GetSymbolTicker (Some ''ETHUSDT''),
                 GetSymbolTicker (Some ''ETHUSDT''),
                 OrderMarketSell (Some ''ETHUSDT'') (round_b64 (1 / 250)),
                 GetSymbolTicker (Some ''ETHUSDT''),
                 OrderMarketSell (Some ''ETHUSDT'') (round_b64 (1 / 250))],
        logged = [ErrorFetchingPrice (Some ''ETHUSDT'') BinanceAPIException,
                  ErrorSellOrder (Some ''ETHUSDT'') BinanceAPIException,
                  ErrorFailedToSell (Some ''ETHUSDT''),
                  InfoSold (round_b64 (1 / 250)) (Some ''ETHUSDT'') 2010,
                  InfoTradeCompleted (Some ''ETHUSDT'')],
        slept = 6\<rparr>)"
    using holding_keeps_trade_until_sold[OF w2 s2] p by (simp add: r6)
  from i1 i2 show ?thesis
    by (simp add: numeral_2_eq_2)
qed

section \<open>An iteration without a symbol\<close>

lemma next_symbol_None: "next_symbol None items = Inl StopIteration"
  by (induction items) simp_all

lemma invest_in_crypto_None:
  "\<exists>e w1. invest_in_crypto cl None amount w = (Inl e, w1) \<and>
     logged w1 = logged w \<and> slept w1 = slept w \<and>
     (calls w1 = calls w @ [GetSymbolTicker None] \<or>
      calls w1 = calls w @ [GetSymbolTicker None, GetExchangeInfo])"
  by (auto simp: invest_in_crypto_def bind_io_def api_def lift_io_def next_symbol_None
      split: prod.splits sum.splits)

lemma kelly_fixed: "kelly_criterion (3 / 5) 2 = Inr (2 / 5)"
  by (simp add: kelly_criterion_def py_truediv_def bind_err_def)

lemma invest_using_kelly_fixed:
  "invest_using_kelly cl crypto usdt_balance (3 / 5) 2 =
     invest_in_crypto cl crypto (usdt_balance * (2 / 5))"
  by (rule ext) (simp add: invest_using_kelly_def kelly_fixed bind_io_def lift_io_def)

lemma idle_iteration_run:
  assumes "get_asset_balance cl ''USDT'' (exchange w) = (Inr balance, ex1)"
    and "py_getitem balance ''free'' = Inr s" and "py_float s = Inr usdt_balance"
    and "10 \<le> usdt_balance"
  shows "idle_iteration cl w =
     (case get_top_loss_crypto cl cryptos ''1h''
             (w\<lparr>exchange := ex1, calls := calls w @ [GetAssetBalance ''USDT'']\<rparr>) of
        (Inl e, w2) \<Rightarrow> on_exception None e w2
      | (Inr top_loss_crypto, w2) \<Rightarrow>
          (case invest_in_crypto cl top_loss_crypto (usdt_balance * (2 / 5)) w2 of
             (Inl e, w3) \<Rightarrow> on_exception None e w3
           | (Inr None, w3) \<Rightarrow> (None, w3)
           | (Inr (Some (order, buy_price)), w3) \<Rightarrow>
               (case fill_value order ''qty'' of
                  Inl e \<Rightarrow> on_exception None e w3
                | Inr amount_bought \<Rightarrow>
                    (Some (top_loss_crypto, buy_price, amount_bought),
                     sleep 1 (logging
                       (InfoActiveTradeStarted top_loss_crypto buy_price amount_bought) w3)))))"
  using assms
  by (simp add: idle_iteration_def invest_using_kelly_fixed bind_io_def api_def lift_io_def
      return_io_def bind_err_def split: prod.splits sum.splits option.splits)

lemma changes_seen_symbols: "map fst (changes_seen cl tf cs ex) = cs"
  by (induction cs arbitrary: ex) (simp_all split: prod.splits)

lemma all_failed:
  assumes "list_all (\<lambda>cr. snd cr = Inl BinanceAPIException) rs"
  shows "scan_ok rs" and "failures rs = map fst rs" and "successes rs = []"
  using assms by (induction rs rule: successes.induct) (simp_all add: scan_ok_def)


text \<open>
  C3. In an iteration without an active trade, with a balance of at least 10: when every
  candle request of the scan fails with BinanceAPIException, the scanner returns
  \<^verbatim>\<open>None\<close>; the buy path is entered with it and raises before any order is placed
  (after the ticker request or, at the latest, when no symbol of the exchange's rules
  equals \<^verbatim>\<open>None\<close>); the loop's handler logs the exception, and the loop goes on without
  an active trade. The requests of the iteration are the balance, the candles of each
  symbol, the ticker and at most the exchange's rules: no buy order.
\<close>

theorem idle_without_symbol_places_no_order:
  assumes "get_asset_balance cl ''USDT'' (exchange w) = (Inr balance, ex1)"
    and "py_getitem balance ''free'' = Inr s" and "py_float s = Inr usdt_balance"
    and "10 \<le> usdt_balance"
    and "list_all (\<lambda>cr. snd cr = Inl BinanceAPIException) (changes_seen cl ''1h'' cryptos ex1)"
  shows
    "\<exists>e w1.
       fst (get_top_loss_crypto cl cryptos ''1h''
              (w\<lparr>exchange := ex1, calls := calls w @ [GetAssetBalance ''USDT'']\<rparr>)) = Inr None \<and>
       run_iteration cl None w = Some (None, w1) \<and>
       (calls w1 =
          calls w @ GetAssetBalance ''USDT'' # map (\<lambda>c. GetKlines c ''1h'' 2) cryptos @
          [GetSymbolTicker None] \<or>
        calls w1 =
          calls w @ GetAssetBalance ''USDT'' # map (\<lambda>c. GetKlines c ''1h'' 2) cryptos @
          [GetSymbolTicker None, GetExchangeInfo]) \<and>
       (\<forall>c q. OrderMarketBuy c q \<in> set (calls w1) \<longrightarrow> OrderMarketBuy c q \<in> set (calls w)) \<and>
       logged w1 =
         logged w @ map (\<lambda>c. ErrorFetchingCandles c BinanceAPIException) cryptos @
         [InfoLargestLoss ''1h'' None None, ErrorUnexpected e] \<and>
       slept w1 = slept w + 2 \<and>
       (\<forall>n. run_trading_bot (Suc n) cl None w = run_trading_bot n cl None w1)"
proof -
  let ?w0 = "w\<lparr>exchange := ex1, calls := calls w @ [GetAssetBalance ''USDT'']\<rparr>"
  let ?seen = "changes_seen cl ''1h'' cryptos (exchange ?w0)"
  from assms(5) have af: "list_all (\<lambda>cr. snd cr = Inl BinanceAPIException) ?seen" by simp
  note facts = all_failed[OF af]
  have fl: "failures ?seen = cryptos"
    using facts(2) changes_seen_symbols[of cl "''1h''" cryptos "exchange ?w0"] by simp
  from get_top_loss_crypto_run[OF facts(1)] obtain ex2 where scan0:
    "get_top_loss_crypto cl cryptos ''1h'' ?w0 =
       (Inr None,
        ?w0\<lparr>exchange := ex2,
          calls := calls ?w0 @ map (\<lambda>c. GetKlines c ''1h'' 2) cryptos,
          logged := logged ?w0 @ map (\<lambda>c. ErrorFetchingCandles c BinanceAPIException) cryptos @
            [InfoLargestLoss ''1h'' None None]\<rparr>)"
    unfolding facts(3) fl by auto
  define w2 where "w2 = ?w0\<lparr>exchange := ex2,
          calls := calls ?w0 @ map (\<lambda>c. GetKlines c ''1h'' 2) cryptos,
          logged := logged ?w0 @ map (\<lambda>c. ErrorFetchingCandles c BinanceAPIException) cryptos @
            [InfoLargestLoss ''1h'' None None]\<rparr>"
  from scan0 have scan: "get_top_loss_crypto cl cryptos ''1h'' ?w0 = (Inr None, w2)"
    unfolding w2_def .
  from invest_in_crypto_None[of cl "usdt_balance * (2 / 5)" w2] obtain e w3 where
    inv: "invest_in_crypto cl None (usdt_balance * (2 / 5)) w2 = (Inl e, w3)"
    and l3: "logged w3 = logged w2" and s3: "slept w3 = slept w2"
    and c3: "calls w3 = calls w2 @ [GetSymbolTicker None] \<or>
      calls w3 = calls w2 @ [GetSymbolTicker None, GetExchangeInfo]" by blast
  define w1 where "w1 = sleep 1 (sleep 1 (logging (ErrorUnexpected e) w3))"
  have idle: "idle_iteration cl w = (None, w1)"
    using idle_iteration_run[OF assms(1-4)] scan inv
    by (simp add: on_exception_def w1_def)
  then have it: "run_iteration cl None w = Some (None, w1)"
    by (simp add: run_iteration_def)
  have calls1: "calls w1 = calls w3" and logged1: "logged w1 = logged w3 @ [ErrorUnexpected e]"
    and slept1: "slept w1 = slept w3 + 2"
    by (simp_all add: w1_def sleep_def logging_def)
  have calls2: "calls w2 = calls w @ GetAssetBalance ''USDT'' # map (\<lambda>c. GetKlines c ''1h'' 2) cryptos"
    and logged2: "logged w2 = logged w @
      map (\<lambda>c. ErrorFetchingCandles c BinanceAPIException) cryptos @ [InfoLargestLoss ''1h'' None None]"
    and slept2: "slept w2 = slept w"
    by (simp_all add: w2_def)
  have c: "calls w1 =
          calls w @ GetAssetBalance ''USDT'' # map (\<lambda>c. GetKlines c ''1h'' 2) cryptos @
          [GetSymbolTicker None] \<or>
        calls w1 =
          calls w @ GetAssetBalance ''USDT'' # map (\<lambda>c. GetKlines c ''1h'' 2) cryptos @
          [GetSymbolTicker None, GetExchangeInfo]"
    using c3 calls1 calls2 by auto
  then have nobuy: "\<forall>c q. OrderMarketBuy c q \<in> set (calls w1) \<longrightarrow> OrderMarketBuy c q \<in> set (calls w)"
    by auto
  have l: "logged w1 =
         logged w @ map (\<lambda>c. ErrorFetchingCandles c BinanceAPIException) cryptos @
         [InfoLargestLoss ''1h'' None None, ErrorUnexpected e]"
    using l3 logged1 logged2 by simp
  have sl: "slept w1 = slept w + 2"
    using s3 slept1 slept2 by simp
  have rt: "\<forall>n. run_trading_bot (Suc n) cl None w = run_trading_bot n cl None w1"
    using it by simp
  from scan have sc: "fst (get_top_loss_crypto cl cryptos ''1h'' ?w0) = Inr None" by simp
  from sc it c nobuy l sl rt show ?thesis by blast
qed

lemma demo_failing_scan:
  "changes_seen failing_klines_client ''1h'' cs ex = map (\<lambda>c. (c, Inl BinanceAPIException)) cs"
  by (induction cs arbitrary: ex)
    (simp_all add: failing_klines_client_def demo_client_def bind_err_def)

lemma demo_idle_failing:
  "run_iteration failing_klines_client None world0 =
     Some (None,
       \<lparr>exchange = 13,
        calls = GetAssetBalance ''USDT'' # map (\<lambda>c. GetKlines c ''1h'' 2) cryptos @
                [GetSymbolTicker None],
        logged = map (\<lambda>c. ErrorFetchingCandles c BinanceAPIException) cryptos @
                 [InfoLargestLoss ''1h'' None None, ErrorUnexpected BinanceAPIException],
        slept = 2\<rparr>)"
  by (simp add: run_iteration_def idle_iteration_def get_top_loss_crypto_def scan_symbol_def
      invest_using_kelly_def kelly_criterion_def invest_in_crypto_def on_exception_def cryptos_def
      failing_klines_client_def io_eval demo_eval py_eval)

theorem idle_without_symbol_places_no_order_witness:
  "py_float ''100.00000000'' = Inr 100 \<and> (10 :: rat) \<le> 100 \<and>
   list_all (\<lambda>cr. snd cr = Inl BinanceAPIException)
     (changes_seen failing_klines_client ''1h'' cryptos 1) \<and>
   run_iteration failing_klines_client None world0 =
     Some (None,
       \<lparr>exchange = 13,
        calls = GetAssetBalance ''USDT'' # map (\<lambda>c. GetKlines c ''1h'' 2) cryptos @
                [GetSymbolTicker None],
        logged = map (\<lambda>c. ErrorFetchingCandles c BinanceAPIException) cryptos @
                 [InfoLargestLoss ''1h'' None None, ErrorUnexpected BinanceAPIException],
        slept = 2\<rparr>)"
proof -
  have h1: "get_asset_balance failing_klines_client ''USDT'' (exchange world0) =
      (Inr [(''asset'', ''USDT''), (''free'', ''100.00000000''), (''locked'', ''0.00000000'')], 1)"
    by (simp add: failing_klines_client_def demo_eval)
  have h2: "py_getitem [(''asset'', ''USDT''), (''free'', ''100.00000000''),
      (''locked'', ''0.00000000'')] ''free'' = Inr ''100.00000000''"
    by (simp add: py_eval)
  have h3: "py_float ''100.00000000'' = Inr 100" by (simp add: py_eval)
  have h4: "(10 :: rat) \<le> 100" by simp
  have h5: "list_all (\<lambda>cr. snd cr = Inl BinanceAPIException)
     (changes_seen failing_klines_client ''1h'' cryptos 1)"
    by (simp add: demo_failing_scan list_all_iff)
  from idle_without_symbol_places_no_order[OF h1 h2 h3 h4 h5] h3 h4 h5 demo_idle_failing
  show ?thesis by blast
qed


section \<open>The first fill of an order\<close>

text \<open>
  C10. \<open>order['fills'][0]\<close> raises IndexError exactly when the order has no fill. In
  \<open>sell_crypto\<close>, an answered sell order without fills makes the function raise IndexError
  after the order was sent: its handler, which is for BinanceAPIException, does not catch
  it and logs nothing; with a fill the function does not raise IndexError. In the loop,
  a bought order without fills raises IndexError at the read of the quantity, which the
  loop's handler logs, and no active trade is recorded; with a first fill whose quantity
  is readable the active trade is that quantity at the buy price.
\<close>

theorem first_fill_access:
  "(fills order \<noteq> [] \<longrightarrow> fill_value order k \<noteq> Inl IndexError) \<and>
   (fills order = [] \<longrightarrow> fill_value order k = Inl IndexError) \<and>
   (\<forall>ex1. order_market_sell cl crypto (py_round amount 6) (exchange w) = (Inr order, ex1) \<and>
      fills order = [] \<longrightarrow>
      sell_crypto cl crypto amount w =
        (Inl IndexError,
         w\<lparr>exchange := ex1,
           calls := calls w @ [OrderMarketSell crypto (py_round amount 6)]\<rparr>)) \<and>
   (\<forall>ex1. order_market_sell cl crypto (py_round amount 6) (exchange w) = (Inr order, ex1) \<and>
      fills order \<noteq> [] \<longrightarrow>
      fst (sell_crypto cl crypto amount w) \<noteq> Inl IndexError) \<and>
   (\<forall>balance ex1 s usdt_balance top_loss_crypto w2 buy_price w3.
      get_asset_balance cl ''USDT'' (exchange w) = (Inr balance, ex1) \<and>
      py_getitem balance ''free'' = Inr s \<and> py_float s = Inr usdt_balance \<and>
      10 \<le> usdt_balance \<and>
      get_top_loss_crypto cl cryptos ''1h''
        (w\<lparr>exchange := ex1, calls := calls w @ [GetAssetBalance ''USDT'']\<rparr>) =
        (Inr top_loss_crypto, w2) \<and>
      invest_using_kelly cl top_loss_crypto usdt_balance (6 / 10) 2 w2 =
        (Inr (Some (order, buy_price)), w3) \<longrightarrow>
      (fills order = [] \<longrightarrow>
         run_iteration cl None w =
           Some (None,
             w3\<lparr>logged := logged w3 @ [ErrorUnexpected IndexError], slept := slept w3 + 2\<rparr>)) \<and>
      (\<forall>fill rest amount_bought.
         fills order = fill # rest \<and>
         bind_err (py_getitem fill ''qty'') py_float = Inr amount_bought \<longrightarrow>
         run_iteration cl None w =
           Some (Some (top_loss_crypto, buy_price, amount_bought),
             w3\<lparr>logged := logged w3 @
                 [InfoActiveTradeStarted top_loss_crypto buy_price amount_bought],
               slept := slept w3 + 1\<rparr>)))"
proof (intro conjI allI impI)
  assume "fills order \<noteq> []"
  then show "fill_value order k \<noteq> Inl IndexError"
    using fill_value_error[of order k IndexError] by auto
next
  assume "fills order = []"
  then show "fill_value order k = Inl IndexError" by (rule fill_value_empty)
next
  fix ex1
  assume "order_market_sell cl crypto (py_round amount 6) (exchange w) = (Inr order, ex1) \<and>
      fills order = []"
  then show "sell_crypto cl crypto amount w =
        (Inl IndexError,
         w\<lparr>exchange := ex1,
           calls := calls w @ [OrderMarketSell crypto (py_round amount 6)]\<rparr>)"
    by (simp add: sell_crypto_cases fill_value_empty)
next
  fix ex1
  assume a: "order_market_sell cl crypto (py_round amount 6) (exchange w) = (Inr order, ex1) \<and>
      fills order \<noteq> []"
  then have "fill_value order ''price'' \<noteq> Inl IndexError"
    using fill_value_error[of order "''price''" IndexError] by auto
  with a show "fst (sell_crypto cl crypto amount w) \<noteq> Inl IndexError"
    by (auto simp: sell_crypto_cases split: sum.splits)
next
  fix balance ex1 s usdt_balance top_loss_crypto w2 buy_price w3
  assume a: "get_asset_balance cl ''USDT'' (exchange w) = (Inr balance, ex1) \<and>
      py_getitem balance ''free'' = Inr s \<and> py_float s = Inr usdt_balance \<and>
      10 \<le> usdt_balance \<and>
      get_top_loss_crypto cl cryptos ''1h''
        (w\<lparr>exchange := ex1, calls := calls w @ [GetAssetBalance ''USDT'']\<rparr>) =
        (Inr top_loss_crypto, w2) \<and>
      invest_using_kelly cl top_loss_crypto usdt_balance (6 / 10) 2 w2 =
        (Inr (Some (order, buy_price)), w3)"
  then have b: "get_asset_balance cl ''USDT'' (exchange w) = (Inr balance, ex1)"
    "py_getitem balance ''free'' = Inr s" "py_float s = Inr usdt_balance" "10 \<le> usdt_balance"
    and scan: "get_top_loss_crypto cl cryptos ''1h''
        (w\<lparr>exchange := ex1, calls := calls w @ [GetAssetBalance ''USDT'']\<rparr>) =
        (Inr top_loss_crypto, w2)"
    and inv: "invest_in_crypto cl top_loss_crypto (usdt_balance * (2 / 5)) w2 =
        (Inr (Some (order, buy_price)), w3)"
    by (simp_all add: invest_using_kelly_fixed)
  have idle: "idle_iteration cl w =
      (case fill_value order ''qty'' of
         Inl e \<Rightarrow> on_exception None e w3
       | Inr amount_bought \<Rightarrow>
           (Some (top_loss_crypto, buy_price, amount_bought),
            sleep 1 (logging
              (InfoActiveTradeStarted top_loss_crypto buy_price amount_bought) w3)))"
    using idle_iteration_run[OF b] scan inv by simp
  {
    assume "fills order = []"
    then show "run_iteration cl None w =
           Some (None,
             w3\<lparr>logged := logged w3 @ [ErrorUnexpected IndexError], slept := slept w3 + 2\<rparr>)"
      using idle
      by (simp add: run_iteration_def fill_value_empty on_exception_def sleep_def logging_def)
  }
  {
    fix fill rest amount_bought
    assume "fills order = fill # rest \<and>
         bind_err (py_getitem fill ''qty'') py_float = Inr amount_bought"
    then show "run_iteration cl None w =
           Some (Some (top_loss_crypto, buy_price, amount_bought),
             w3\<lparr>logged := logged w3 @
                 [InfoActiveTradeStarted top_loss_crypto buy_price amount_bought],
               slept := slept w3 + 1\<rparr>)"
      using idle
      by (simp add: run_iteration_def fill_value_first sleep_def logging_def)
  }
qed


lemma demo_sell_no_fills:
  "sell_crypto demo_client (Some ''XRPUSDT'') 40 (world0\<lparr>exchange := 5\<rparr>) =
     (Inl IndexError,
      \<lparr>exchange = 6, calls = [OrderMarketSell (Some ''XRPUSDT'') 40], logged = [], slept = 0\<rparr>)"
  by (simp add: sell_crypto_def fill_value_def io_eval demo_eval py_eval round_eval)

lemma demo_xrp_scan:
  "get_top_loss_crypto xrp_only_client cryptos ''1h''
     (world0\<lparr>exchange := 1, calls := calls world0 @ [GetAssetBalance ''USDT'']\<rparr>) =
     (Inr (Some ''XRPUSDT''),
      \<lparr>exchange = 12,
       calls = GetAssetBalance ''USDT'' # map (\<lambda>c. GetKlines c ''1h'' 2) cryptos,
       logged = map (\<lambda>c. ErrorFetchingCandles c BinanceAPIException)
                  (filter (\<lambda>c. c \<noteq> ''XRPUSDT'') cryptos) @
                [InfoLargestLoss ''1h'' (Some ''XRPUSDT'') (Some (- (1125899906842625 / 562949953421312)))],
       slept = 0\<rparr>)"
  by (simp add: get_top_loss_crypto_def scan_symbol_def cryptos_def xrp_only_client_def
      scan_demo_klines_def price_change_percent_def candle_def io_eval demo_eval py_eval)

lemma demo_xrp_invest:
  "invest_using_kelly xrp_only_client (Some ''XRPUSDT'') 100 (6 / 10) 2
     \<lparr>exchange = 12,
      calls = GetAssetBalance ''USDT'' # map (\<lambda>c. GetKlines c ''1h'' 2) cryptos,
      logged = map (\<lambda>c. ErrorFetchingCandles c BinanceAPIException)
                 (filter (\<lambda>c. c \<noteq> ''XRPUSDT'') cryptos) @
               [InfoLargestLoss ''1h'' (Some ''XRPUSDT'') (Some (- (1125899906842625 / 562949953421312)))],
      slept = 0\<rparr> =
     (Inr (Some (\<lparr>fills = []\<rparr>, 1)),
      \<lparr>exchange = 15,
       calls = GetAssetBalance ''USDT'' # map (\<lambda>c. GetKlines c ''1h'' 2) cryptos @
               [GetSymbolTicker (Some ''XRPUSDT''), GetExchangeInfo,
                OrderMarketBuy (Some ''XRPUSDT'') 40],
       logged = map (\<lambda>c. ErrorFetchingCandles c BinanceAPIException)
                  (filter (\<lambda>c. c \<noteq> ''XRPUSDT'') cryptos) @
                [InfoLargestLoss ''1h'' (Some ''XRPUSDT'') (Some (- (1125899906842625 / 562949953421312))),
                 InfoBought 40 (Some ''XRPUSDT'') 40 1],
       slept = 0\<rparr>)"
  by (simp add: invest_using_kelly_def kelly_criterion_def invest_in_crypto_def
      lot_size_quantity_def cryptos_def xrp_only_client_def io_eval demo_eval py_eval round_eval)

theorem first_fill_access_witness:
  "sell_crypto demo_client (Some ''XRPUSDT'') 40 (world0\<lparr>exchange := 5\<rparr>) =
     (Inl IndexError,
      \<lparr>exchange = 6, calls = [OrderMarketSell (Some ''XRPUSDT'') 40], logged = [], slept = 0\<rparr>) \<and>
   run_iteration xrp_only_client None world0 =
     Some (None,
       \<lparr>exchange = 15,
        calls = GetAssetBalance ''USDT'' # map (\<lambda>c. GetKlines c ''1h'' 2) cryptos @
                [GetSymbolTicker (Some ''XRPUSDT''), GetExchangeInfo,
                 OrderMarketBuy (Some ''XRPUSDT'') 40],
        logged = map (\<lambda>c. ErrorFetchingCandles c BinanceAPIException)
                   (filter (\<lambda>c. c \<noteq> ''XRPUSDT'') cryptos) @
                 [InfoLargestLoss ''1h'' (Some ''XRPUSDT'') (Some (- (1125899906842625 / 562949953421312))),
                  InfoBought 40 (Some ''XRPUSDT'') 40 1, ErrorUnexpected IndexError],
        slept = 2\<rparr>) \<and>
   fill_value \<lparr>fills = [[(''price'', ''2010.00000000''), (''qty'', ''0.00400000'')]]\<rparr> ''qty'' =
     Inr (round_b64 (1 / 250))"
proof -
  have s: "order_market_sell demo_client (Some ''XRPUSDT'') (py_round 40 6)
      (exchange (world0\<lparr>exchange := 5\<rparr>)) = (Inr \<lparr>fills = []\<rparr>, 6) \<and> fills \<lparr>fills = []\<rparr> = []"
    by (simp add: demo_eval)
  have 1: "sell_crypto demo_client (Some ''XRPUSDT'') 40 (world0\<lparr>exchange := 5\<rparr>) =
     (Inl IndexError,
      \<lparr>exchange = 6, calls = [OrderMarketSell (Some ''XRPUSDT'') 40], logged = [], slept = 0\<rparr>)"
    using first_fill_access[of "\<lparr>fills = []\<rparr>" "''qty''" demo_client "Some ''XRPUSDT''" 40
        "world0\<lparr>exchange := 5\<rparr>"] s
    by (simp add: demo_sell_no_fills)
  have b: "get_asset_balance xrp_only_client ''USDT'' (exchange world0) =
      (Inr [(''asset'', ''USDT''), (''free'', ''100.00000000''), (''locked'', ''0.00000000'')], 1) \<and>
      py_getitem [(''asset'', ''USDT''), (''free'', ''100.00000000''),
        (''locked'', ''0.00000000'')] ''free'' = Inr ''100.00000000'' \<and>
      py_float ''100.00000000'' = Inr 100 \<and> (10 :: rat) \<le> 100"
    by (simp add: xrp_only_client_def demo_eval py_eval)
  from first_fill_access[of "\<lparr>fills = []\<rparr>" "''qty''" xrp_only_client "Some ''XRPUSDT''" 40 world0]
    b demo_xrp_scan demo_xrp_invest
  have 2: "run_iteration xrp_only_client None world0 =
     Some (None,
       \<lparr>exchange = 15,
        calls = GetAssetBalance ''USDT'' # map (\<lambda>c. GetKlines c ''1h'' 2) cryptos @
                [GetSymbolTicker (Some ''XRPUSDT''), GetExchangeInfo,
                 OrderMarketBuy (Some ''XRPUSDT'') 40],
        logged = map (\<lambda>c. ErrorFetchingCandles c BinanceAPIException)
                   (filter (\<lambda>c. c \<noteq> ''XRPUSDT'') cryptos) @
                 [InfoLargestLoss ''1h'' (Some ''XRPUSDT'') (Some (- (1125899906842625 / 562949953421312))),
                  InfoBought 40 (Some ''XRPUSDT'') 40 1, ErrorUnexpected IndexError],
        slept = 2\<rparr>)"
    by (simp add: cryptos_def)
  have 3: "fill_value \<lparr>fills = [[(''price'', ''2010.00000000''), (''qty'', ''0.00400000'')]]\<rparr>
      ''qty'' = Inr (round_b64 (1 / 250))"
    by (simp add: fill_value_def py_eval)
  from 1 2 3 show ?thesis by blast
qed

section \<open>The Kelly fraction\<close>

lemma pow2_pos: "0 < pow2 e"
  by (simp add: pow2_def)

lemma pow2_Suc: "pow2 (e + 1) = 2 * pow2 e"
proof (cases "0 \<le> e")
  case True
  then show ?thesis by (simp add: pow2_def nat_add_distrib)
next
  case False
  then have "nat (- e) = Suc (nat (- (e + 1)))" by simp
  with False show ?thesis by (simp add: pow2_def)
qed

lemma pow2_pred: "pow2 (e - 1) = pow2 e / 2"
  using pow2_Suc[of "e - 1"] by simp

lemma log2_floor_bounds:
  "1 / 2 ^ fuel \<le> x \<Longrightarrow> x < 2 ^ Suc fuel \<Longrightarrow>
   pow2 (log2_floor fuel x) \<le> x \<and> x < 2 * pow2 (log2_floor fuel x)"
proof (induction fuel arbitrary: x)
  case 0
  then show ?case by (simp add: pow2_def)
next
  case (Suc fuel)
  show ?case
  proof (cases "2 \<le> x")
    case True
    have "1 / 2 ^ fuel \<le> x / 2"
    proof -
      have "1 / 2 ^ fuel \<le> (1 :: rat)" by (simp add: divide_le_eq)
      also have "\<dots> \<le> x / 2" using True by simp
      finally show ?thesis .
    qed
    moreover have "x / 2 < 2 ^ Suc fuel" using Suc.prems(2) by simp
    ultimately have "pow2 (log2_floor fuel (x / 2)) \<le> x / 2 \<and>
        x / 2 < 2 * pow2 (log2_floor fuel (x / 2))" by (rule Suc.IH)
    with True show ?thesis by (simp add: pow2_Suc)
  next
    case False
    show ?thesis
    proof (cases "x < 1")
      case True
      have "1 / 2 ^ fuel \<le> x * 2" using Suc.prems(1) by (simp add: field_simps)
      moreover have "x * 2 < 2 ^ Suc fuel"
      proof -
        have "x * 2 < 2" using True by simp
        also have "\<dots> \<le> (2 :: rat) ^ Suc fuel" by (simp add: self_le_power)
        finally show ?thesis .
      qed
      ultimately have "pow2 (log2_floor fuel (x * 2)) \<le> x * 2 \<and>
          x * 2 < 2 * pow2 (log2_floor fuel (x * 2))" by (rule Suc.IH)
      with True False show ?thesis by (simp add: pow2_pred)
    next
      case False
      with \<open>\<not> 2 \<le> x\<close> show ?thesis by (simp add: pow2_def)
    qed
  qed
qed

text \<open>
  In the range of the fuel, \<open>round_b64 x\<close> is a whole number of units \<open>2\<^sup>e\<^sup>-\<^sup>5\<^sup>2\<close>, where
  \<open>2\<^sup>e \<le> |x| < 2\<^sup>e\<^sup>+\<^sup>1\<close>, and lies within half a unit of \<open>x\<close>.
\<close>

lemma round_b64_near:
  assumes "1 / 2 ^ 1100 \<le> \<bar>x\<bar>" "\<bar>x\<bar> < 2 ^ 1101"
  shows "\<exists>e k. pow2 e \<le> \<bar>x\<bar> \<and> \<bar>x\<bar> < 2 * pow2 e \<and>
           round_b64 x = of_int k * pow2 (e - 52) \<and>
           \<bar>round_b64 x - x\<bar> \<le> pow2 (e - 52) / 2"
proof -
  define e where "e = log2_floor 1100 \<bar>x\<bar>"
  from assms have x0: "x \<noteq> 0" by auto
  have b: "pow2 e \<le> \<bar>x\<bar> \<and> \<bar>x\<bar> < 2 * pow2 e"
    unfolding e_def using log2_floor_bounds[of 1100 "\<bar>x\<bar>"] assms by simp
  define k where "k = round_half_even (x / pow2 (e - 52))"
  have r: "round_b64 x = of_int k * pow2 (e - 52)"
    using x0 by (simp add: round_b64_def Let_def e_def k_def)
  have "\<bar>of_int k - x / pow2 (e - 52)\<bar> \<le> 1 / 2"
    unfolding k_def by (rule round_half_even_near)
  then have "\<bar>of_int k - x / pow2 (e - 52)\<bar> * pow2 (e - 52) \<le> 1 / 2 * pow2 (e - 52)"
    using pow2_pos[of "e - 52"] by (simp add: mult_right_mono)
  moreover have "\<bar>of_int k - x / pow2 (e - 52)\<bar> * pow2 (e - 52) =
      \<bar>of_int k * pow2 (e - 52) - x\<bar>"
  proof -
    have "\<bar>of_int k - x / pow2 (e - 52)\<bar> * pow2 (e - 52) =
        \<bar>(of_int k - x / pow2 (e - 52)) * pow2 (e - 52)\<bar>"
      using pow2_pos[of "e - 52"] by (simp add: abs_mult)
    also have "(of_int k - x / pow2 (e - 52)) * pow2 (e - 52) = of_int k * pow2 (e - 52) - x"
      using pow2_pos[of "e - 52"] by (simp add: field_simps)
    finally show ?thesis .
  qed
  ultimately have "\<bar>round_b64 x - x\<bar> \<le> pow2 (e - 52) / 2"
    using r by simp
  with b r show ?thesis by blast
qed






end
